theory Spec2Isabelle
  imports Main "HOL-Library.Word" "HOL-Library.Sublist"
begin

section \<open>The heartbeat service of crush: data model\<close>

text \<open>
  The development embeds the heartbeat package (\<^verbatim>\<open>internal/heartbeat\<close>): the types of
  \<^verbatim>\<open>types.go\<close>, the context manager of \<^verbatim>\<open>context.go\<close>, the prompt builder of
  \<^verbatim>\<open>prompt.go\<close> and the service (\<^verbatim>\<open>runCycle\<close>, \<^verbatim>\<open>parseMemoryCommands\<close>,
  \<^verbatim>\<open>acquireLock\<close>).

  Conventions of the embedding.
  \<^item> Go's \<^verbatim>\<open>int\<close> is a 64-bit word; \<open>+\<close> wraps and \<open>sint\<close> reads it.
  \<^item> A Go \<^verbatim>\<open>string\<close> is a list of bytes (\<open>string\<close>).
  \<^item> \<^verbatim>\<open>time.Now()\<close> reads a clock: every function that calls it takes the reading as an
    argument. A reading is the civil time that \<^verbatim>\<open>Format\<close> prints.
  \<^item> A Go \<^verbatim>\<open>error\<close> result is a value of the datatype \<open>error\<close>; \<^verbatim>\<open>nil\<close> is \<open>None\<close>.
  \<^item> A pointer argument that the callee mutates (\<^verbatim>\<open>*Context\<close>) is returned updated.
  \<^item> The files under \<^verbatim>\<open>~/.mcp\<close> are the fields of the record \<open>world\<close>. The JSON codec
    of the state files is abstracted: a state file holds either bytes that
    \<^verbatim>\<open>json.Unmarshal\<close> rejects (\<open>Malformed\<close>) or the value it decodes to
    (\<open>Wellformed\<close>), and \<^verbatim>\<open>json.MarshalIndent\<close> of a value is the file that decodes to it.
    The directory is changed by the service only.
\<close>

type_synonym goint = "64 word"

record gotime =
  year :: nat
  month :: nat
  day :: nat
  hour :: nat
  minute :: nat
  second :: nat
  zone :: string

text \<open>The dynamic values that \<^verbatim>\<open>encoding/json\<close> stores in an \<^verbatim>\<open>interface{}\<close>. A number
  keeps its literal: the service never reads one.\<close>

datatype jvalue =
    JNull
  | JBool bool
  | JNumber string
  | JString string
  | JArray "jvalue list"
  | JObject "(string \<times> jvalue) list"

record Observation =
  o_Content :: string
  o_Timestamp :: gotime
  o_Cycle :: goint

record Lesson =
  l_Content :: string
  l_Timestamp :: gotime
  l_Cycle :: goint
  l_Confidence :: string

record Hypothesis =
  h_Content :: string
  h_Timestamp :: gotime
  h_Cycle :: goint
  h_Status :: string
  h_Evidence :: "string list"

record Strategy =
  s_Name :: string
  s_Description :: string
  s_Timestamp :: gotime
  s_Cycle :: goint
  s_Effectiveness :: string

record ContextMeta =
  Version :: string
  CreatedAt :: gotime
  UpdatedAt :: gotime
  TotalCycles :: goint

record Context =
  Observations :: "Observation list"
  Lessons :: "Lesson list"
  Hypotheses :: "Hypothesis list"
  Strategies :: "Strategy list"
  Metadata :: ContextMeta

record Goal =
  g_ID :: goint
  g_Title :: string
  g_Description :: string
  g_Priority :: string
  g_Status :: string
  g_CreatedAt :: gotime
  g_Progress :: "string list"

record GoalsMeta =
  NextID :: goint
  gm_UpdatedAt :: gotime

record Goals =
  gs_Goals :: "Goal list"
  gs_Metadata :: GoalsMeta

record MemoryCommand =
  Command :: string
  Reason :: string
  Data :: "string \<rightharpoonup> jvalue"

text \<open>The zero value of \<^verbatim>\<open>time.Time\<close> (January 1, year 1, 00:00:00 UTC).\<close>

definition zeroTime :: gotime where
  "zeroTime = \<lparr>year = 1, month = 1, day = 1, hour = 0, minute = 0, second = 0, zone = ''UTC''\<rparr>"

subsection \<open>Errors\<close>

text \<open>One constructor for each \<^verbatim>\<open>fmt.Errorf\<close> of the package; a \<^verbatim>\<open>%w\<close> argument is the
  constructor's argument. \<open>ErrExternal\<close> is an error of the operating system or of the
  application behind \<^verbatim>\<open>AppInterface\<close>.\<close>

datatype error =
    ErrExternal string
  | ErrReadContext error          \<comment> \<open>failed to read context file\<close>
  | ErrParseContext error         \<comment> \<open>failed to parse context JSON\<close>
  | ErrWriteContext error         \<comment> \<open>failed to write context file\<close>
  | ErrBackupDir error            \<comment> \<open>failed to create backup directory\<close>
  | ErrBackupRead error           \<comment> \<open>failed to read context for backup\<close>
  | ErrBackupWrite error          \<comment> \<open>failed to write backup\<close>
  | ErrReadGoals error            \<comment> \<open>failed to read goals file\<close>
  | ErrParseGoals error           \<comment> \<open>failed to parse goals JSON\<close>
  | ErrReadMission error          \<comment> \<open>failed to read mission file\<close>
  | ErrOpenLog error              \<comment> \<open>failed to open log file\<close>
  | ErrWriteLog error             \<comment> \<open>failed to write to log\<close>
  | ErrObservationContent         \<comment> \<open>observation content must be a string\<close>
  | ErrLessonContent              \<comment> \<open>lesson content must be a string\<close>
  | ErrHypothesisContent          \<comment> \<open>hypothesis content must be a string\<close>
  | ErrStrategyFields             \<comment> \<open>strategy requires name and description strings\<close>
  | ErrUnknownCommand string      \<comment> \<open>unknown memory command\<close>
  | ErrLoadContext error          \<comment> \<open>failed to load context\<close>
  | ErrLoadGoals error            \<comment> \<open>failed to load goals\<close>
  | ErrLoadMission error          \<comment> \<open>failed to load mission\<close>
  | ErrCreateSession error        \<comment> \<open>failed to create session\<close>
  | ErrRunAgent error             \<comment> \<open>failed to run agent\<close>
  | ErrSaveContext error          \<comment> \<open>failed to save context\<close>
  | ErrInitialContext error       \<comment> \<open>failed to load initial context\<close>
  | ErrAlreadyRunning goint       \<comment> \<open>heartbeat already running with PID\<close>
  | ErrCreatePID error            \<comment> \<open>failed to create PID file\<close>

subsection \<open>The files of the state directory\<close>

datatype 'a stored = NoFile | NoAccess | File 'a

datatype 'a json_text = Malformed | Wellformed 'a

text \<open>An entry of the mission log: the timestamp of \<^verbatim>\<open>AppendLog\<close> and the entry text.\<close>

type_synonym log_entry = "gotime \<times> string"

record world =
  contextFile :: "Context json_text stored"
  goalsFile :: "Goals json_text stored"
  missionFile :: "string stored"
  logFile :: "log_entry list"
  backups :: "string \<rightharpoonup> Context json_text"
  pidFile :: "string stored"

text \<open>Whether the file system lets a write go through (permissions, free space) is an
  input of the operation that writes.\<close>

record faults =
  context_write_ok :: bool
  backup_mkdir_ok :: bool
  backup_write_ok :: bool
  log_open_ok :: bool
  log_write_ok :: bool

definition osError :: error where
  "osError = ErrExternal ''os''"

section \<open>Formatting\<close>

text \<open>\<^verbatim>\<open>%d\<close>: the decimal digits of a number.\<close>

fun show_nat :: "nat \<Rightarrow> string" where
  "show_nat n =
     (if n < 10 then [char_of (48 + n)]
      else show_nat (n div 10) @ [char_of (48 + n mod 10)])"

declare show_nat.simps [simp del]

definition show_int :: "int \<Rightarrow> string" where
  "show_int i = (if i < 0 then CHR ''-'' # show_nat (nat (- i)) else show_nat (nat i))"

definition show_goint :: "goint \<Rightarrow> string" where
  "show_goint c = show_int (sint c)"

text \<open>A field of a time layout, padded with zeros to a width (\<^verbatim>\<open>01\<close>, \<^verbatim>\<open>2006\<close>).\<close>

definition pad :: "nat \<Rightarrow> nat \<Rightarrow> string" where
  "pad w n = replicate (w - length (show_nat n)) CHR ''0'' @ show_nat n"

text \<open>The layout \<^verbatim>\<open>2006-01-02 15:04:05 MST\<close>.\<close>

definition format_log_time :: "gotime \<Rightarrow> string" where
  "format_log_time t =
     pad 4 (year t) @ ''-'' @ pad 2 (month t) @ ''-'' @ pad 2 (day t) @ '' '' @
     pad 2 (hour t) @ '':'' @ pad 2 (minute t) @ '':'' @ pad 2 (second t) @ '' '' @ zone t"

text \<open>The layout \<^verbatim>\<open>20060102_150405\<close>.\<close>

definition format_backup_time :: "gotime \<Rightarrow> string" where
  "format_backup_time t =
     pad 4 (year t) @ pad 2 (month t) @ pad 2 (day t) @ ''_'' @
     pad 2 (hour t) @ pad 2 (minute t) @ pad 2 (second t)"

section \<open>The context manager (context.go)\<close>

text \<open>\<^verbatim>\<open>createEmptyContext\<close>; \<open>now\<close> is its reading of the clock.\<close>

definition createEmptyContext :: "gotime \<Rightarrow> Context" where
  "createEmptyContext now =
     \<lparr>Observations = [], Lessons = [], Hypotheses = [], Strategies = [],
      Metadata = \<lparr>Version = ''1.0'', CreatedAt = now, UpdatedAt = now, TotalCycles = 0\<rparr>\<rparr>"

text \<open>\<^verbatim>\<open>LoadContext\<close>: a missing file is a fresh context; a file that cannot be read or
  parsed is an error.\<close>

definition LoadContext :: "gotime \<Rightarrow> world \<Rightarrow> error + Context" where
  "LoadContext now w =
     (case contextFile w of
        NoFile \<Rightarrow> Inr (createEmptyContext now)
      | NoAccess \<Rightarrow> Inl (ErrReadContext osError)
      | File Malformed \<Rightarrow> Inl (ErrParseContext osError)
      | File (Wellformed ctx) \<Rightarrow> Inr ctx)"

text \<open>\<^verbatim>\<open>SaveContext\<close>: stamps \<^verbatim>\<open>UpdatedAt\<close> and overwrites the context file. The types of
  \<open>Context\<close> always marshal, so the marshal error does not arise.\<close>

definition SaveContext :: "gotime \<Rightarrow> faults \<Rightarrow> Context \<Rightarrow> world \<Rightarrow> error option \<times> Context \<times> world" where
  "SaveContext now fl ctx w =
     (let ctx' = ctx\<lparr>Metadata := (Metadata ctx)\<lparr>UpdatedAt := now\<rparr>\<rparr>
      in if context_write_ok fl
         then (None, ctx', w\<lparr>contextFile := File (Wellformed ctx')\<rparr>)
         else (Some (ErrWriteContext osError), ctx', w))"

text \<open>The path of a backup below the backup directory:
  \<^verbatim>\<open>context_<timestamp>_<reason>.json\<close>.\<close>

definition backupPath :: "gotime \<Rightarrow> string \<Rightarrow> string" where
  "backupPath now reason = ''context_'' @ format_backup_time now @ ''_'' @ reason @ ''.json''"

text \<open>\<^verbatim>\<open>BackupContext\<close>: copies the bytes of the context file to a new backup file. No
  context file is nothing to back up.\<close>

definition BackupContext :: "gotime \<Rightarrow> faults \<Rightarrow> string \<Rightarrow> world \<Rightarrow> error option \<times> world" where
  "BackupContext now fl reason w =
     (if contextFile w = NoFile then (None, w)
      else if \<not> backup_mkdir_ok fl then (Some (ErrBackupDir osError), w)
      else (case contextFile w of
              File bytes \<Rightarrow>
                (if backup_write_ok fl
                 then (None, w\<lparr>backups := (backups w)(backupPath now reason \<mapsto> bytes)\<rparr>)
                 else (Some (ErrBackupWrite osError), w))
            | _ \<Rightarrow> (Some (ErrBackupRead osError), w)))"

definition LoadGoals :: "world \<Rightarrow> error + Goals" where
  "LoadGoals w =
     (case goalsFile w of
        NoFile \<Rightarrow> Inr \<lparr>gs_Goals = [], gs_Metadata = \<lparr>NextID = 1, gm_UpdatedAt = zeroTime\<rparr>\<rparr>
      | NoAccess \<Rightarrow> Inl (ErrReadGoals osError)
      | File Malformed \<Rightarrow> Inl (ErrParseGoals osError)
      | File (Wellformed goals) \<Rightarrow> Inr goals)"

definition LoadMission :: "world \<Rightarrow> error + string" where
  "LoadMission w =
     (case missionFile w of
        NoFile \<Rightarrow> Inr []
      | NoAccess \<Rightarrow> Inl (ErrReadMission osError)
      | File text \<Rightarrow> Inr text)"

text \<open>\<^verbatim>\<open>AppendLog\<close>: a timestamped section at the end of the mission log.\<close>

definition AppendLog :: "gotime \<Rightarrow> faults \<Rightarrow> string \<Rightarrow> world \<Rightarrow> error option \<times> world" where
  "AppendLog now fl entry w =
     (if \<not> log_open_ok fl then (Some (ErrOpenLog osError), w)
      else if \<not> log_write_ok fl then (Some (ErrWriteLog osError), w)
      else (None, w\<lparr>logFile := logFile w @ [(now, entry)]\<rparr>))"

text \<open>The type assertion \<^verbatim>\<open>v, ok := m[key].(string)\<close>: the string and \<open>True\<close> when the
  key is present with a string, the empty string and \<open>False\<close> otherwise.\<close>

definition assertString :: "jvalue option \<Rightarrow> string \<times> bool" where
  "assertString v = (case v of Some (JString s) \<Rightarrow> (s, True) | _ \<Rightarrow> ([], False))"

text \<open>\<^verbatim>\<open>ExecuteMemoryCommand\<close>: the switch on the command name, in the order of the
  source.\<close>

definition ExecuteMemoryCommand ::
  "gotime \<Rightarrow> Context \<Rightarrow> MemoryCommand \<Rightarrow> goint \<Rightarrow> error option \<times> Context" where
  "ExecuteMemoryCommand now ctx cmd cycle =
     (if Command cmd = ''add_observation'' then
        (let (content, ok) = assertString (Data cmd ''content'')
         in if \<not> ok then (Some ErrObservationContent, ctx)
            else (None, ctx\<lparr>Observations := Observations ctx @
                    [\<lparr>o_Content = content, o_Timestamp = now, o_Cycle = cycle\<rparr>]\<rparr>))
      else if Command cmd = ''add_lesson'' then
        (let (content, ok) = assertString (Data cmd ''content'')
         in if \<not> ok then (Some ErrLessonContent, ctx)
            else (let confidence = fst (assertString (Data cmd ''confidence''))
                  in (None, ctx\<lparr>Lessons := Lessons ctx @
                        [\<lparr>l_Content = content, l_Timestamp = now, l_Cycle = cycle,
                          l_Confidence = confidence\<rparr>]\<rparr>)))
      else if Command cmd = ''add_hypothesis'' then
        (let (content, ok) = assertString (Data cmd ''content'')
         in if \<not> ok then (Some ErrHypothesisContent, ctx)
            else (None, ctx\<lparr>Hypotheses := Hypotheses ctx @
                    [\<lparr>h_Content = content, h_Timestamp = now, h_Cycle = cycle,
                      h_Status = ''testing'', h_Evidence = []\<rparr>]\<rparr>))
      else if Command cmd = ''add_strategy'' then
        (let (name, okName) = assertString (Data cmd ''name'');
             (desc, okDesc) = assertString (Data cmd ''description'')
         in if \<not> okName \<or> \<not> okDesc then (Some ErrStrategyFields, ctx)
            else (None, ctx\<lparr>Strategies := Strategies ctx @
                    [\<lparr>s_Name = name, s_Description = desc, s_Timestamp = now, s_Cycle = cycle,
                      s_Effectiveness = []\<rparr>]\<rparr>))
      else if Command cmd = ''prune_old'' then (None, ctx)
      else (Some (ErrUnknownCommand (Command cmd)), ctx))"

section \<open>The prompt builder (prompt.go)\<close>

text \<open>The loop over \<^verbatim>\<open>goals.Goals\<close>: \<open>i\<close> is the index of the goal in the whole list, so
  the printed number \<open>i + 1\<close> skips the goals that are not active.\<close>

definition goal_entry :: "nat \<Rightarrow> Goal \<Rightarrow> string" where
  "goal_entry i goal =
     show_int (int i + 1) @ ''. **['' @ g_Priority goal @ ''] '' @ g_Title goal @ ''**\<newline>'' @
     ''   '' @ g_Description goal @ ''\<newline>'' @
     (if length (g_Progress goal) > 0
      then ''   *Latest: '' @ g_Progress goal ! (length (g_Progress goal) - 1) @ ''*\<newline>''
      else []) @
     ''\<newline>''"

fun goal_loop :: "nat \<Rightarrow> Goal list \<Rightarrow> string" where
  "goal_loop i [] = []"
| "goal_loop i (goal # rest) =
     (if g_Status goal \<noteq> ''active'' then goal_loop (Suc i) rest
      else goal_entry i goal @ goal_loop (Suc i) rest)"

definition goals_section :: "Goals \<Rightarrow> string" where
  "goals_section goals =
     ''## Active Goals\<newline>\<newline>'' @
     (if length (gs_Goals goals) = 0 then ''*No active goals*\<newline>\<newline>''
      else goal_loop 0 (gs_Goals goals))"

definition observation_line :: "Observation \<Rightarrow> string" where
  "observation_line obs = ''- [Cycle '' @ show_goint (o_Cycle obs) @ ''] '' @ o_Content obs @ ''\<newline>''"

text \<open>The recent observations: \<^verbatim>\<open>start := len - 5\<close>, raised to 0 when negative, and the
  loop \<^verbatim>\<open>for i := start; i < len; i++\<close>.\<close>

definition observations_section :: "Observation list \<Rightarrow> string" where
  "observations_section obs =
     (if length obs > 0 then
        ''### Recent Observations\<newline>\<newline>'' @
        (let start = int (length obs) - 5;
             start = (if start < 0 then 0 else start)
         in concat (map (\<lambda>i. observation_line (obs ! i)) [nat start ..< length obs])) @
        ''\<newline>''
      else [])"

definition lesson_line :: "Lesson \<Rightarrow> string" where
  "lesson_line lesson =
     (let confidence = (if l_Confidence lesson \<noteq> [] then '' ['' @ l_Confidence lesson @ '' confidence]'' else [])
      in ''- '' @ l_Content lesson @ confidence @ ''\<newline>'')"

definition lessons_section :: "Lesson list \<Rightarrow> string" where
  "lessons_section ls =
     (if length ls > 0 then
        ''### Lessons Learned\<newline>\<newline>'' @ concat (map lesson_line ls) @ ''\<newline>''
      else [])"

definition hypotheses_section :: "Hypothesis list \<Rightarrow> string" where
  "hypotheses_section hs =
     (if length hs > 0 then
        ''### Hypotheses Being Tested\<newline>\<newline>'' @
        concat (map (\<lambda>hyp. if h_Status hyp = ''testing'' then ''- '' @ h_Content hyp @ ''\<newline>'' else []) hs) @
        ''\<newline>''
      else [])"

definition strategy_line :: "Strategy \<Rightarrow> string" where
  "strategy_line strat =
     (let effectiveness = (if s_Effectiveness strat \<noteq> [] then '' - '' @ s_Effectiveness strat else [])
      in ''- **'' @ s_Name strat @ ''**: '' @ s_Description strat @ effectiveness @ ''\<newline>'')"

definition strategies_section :: "Strategy list \<Rightarrow> string" where
  "strategies_section ss =
     (if length ss > 0 then
        ''### Strategies\<newline>\<newline>'' @ concat (map strategy_line ss) @ ''\<newline>''
      else [])"

definition this_cycle_section :: string where
  "this_cycle_section =
     ''## This Cycle\<newline>\<newline>'' @
     ''What will you work on this cycle? Choose a goal, use tools to make progress, and update your memory.\<newline>\<newline>'' @
     ''Remember:\<newline>'' @
     ''- Use websearch + fetch to research autonomously\<newline>'' @
     ''- Check your observations before re-researching\<newline>'' @
     ''- Update your memory with what you learn\<newline>'' @
     ''- Work incrementally toward goals\<newline>\<newline>'' @
     ''Begin your autonomous work now.\<newline>''"

text \<open>\<^verbatim>\<open>BuildUserPrompt\<close>: the writes to the string builder, in order. \<open>now\<close> is the
  reading of the clock that the header prints; the parameter \<open>mission\<close> is not used by the
  source, which prints a fixed mission text.\<close>

definition BuildUserPrompt :: "gotime \<Rightarrow> Context \<Rightarrow> Goals \<Rightarrow> string \<Rightarrow> goint \<Rightarrow> string" where
  "BuildUserPrompt now ctx goals mission cycleNumber =
     ''# MCP Heartbeat Cycle '' @ show_goint cycleNumber @ ''\<newline>\<newline>'' @
     ''**Time**: '' @ format_log_time now @ ''\<newline>\<newline>'' @
     ''## Mission\<newline>\<newline>'' @
     ''Build companies and fortunes for Lennart and Tana. Pursue knowledge, prosperity, and the conquest of space.\<newline>\<newline>'' @
     goals_section goals @
     ''## Your Knowledge\<newline>\<newline>'' @
     observations_section (Observations ctx) @
     lessons_section (Lessons ctx) @
     hypotheses_section (Hypotheses ctx) @
     strategies_section (Strategies ctx) @
     this_cycle_section"

section \<open>Extraction of the memory commands (parseMemoryCommands)\<close>

subsection \<open>The regular expression\<close>

text \<open>
  The pattern is \<^verbatim>\<open>(?s)MEMORY_COMMANDS:\s*(\[.*?\](?:\s*\n|$))\<close>, matched by
  \<^verbatim>\<open>FindStringSubmatch\<close>: the leftmost match, with the preferences of a backtracking
  matcher. The functions below are its parts.
\<close>

text \<open>The class \<^verbatim>\<open>\s\<close>: tab, newline, form feed, carriage return, space.\<close>

definition is_space :: "char \<Rightarrow> bool" where
  "is_space c \<longleftrightarrow> c = CHR 0x09 \<or> c = CHR 0x0A \<or> c = CHR 0x0C \<or> c = CHR 0x0D \<or> c = CHR 0x20"

definition marker :: string where
  "marker = ''MEMORY_COMMANDS:''"

fun strip_prefix :: "string \<Rightarrow> string \<Rightarrow> string option" where
  "strip_prefix [] s = Some s"
| "strip_prefix (p # ps) [] = None"
| "strip_prefix (p # ps) (c # cs) = (if p = c then strip_prefix ps cs else None)"

text \<open>\<^verbatim>\<open>(?:\s*\n|$)\<close> at the start of \<open>r\<close>: the greedy \<^verbatim>\<open>\s*\<close> takes the whole run of
  white space and gives back down to its last newline; without a newline in the run, only
  the end of the text matches. The result is the text matched.\<close>

definition block_end :: "string \<Rightarrow> string option" where
  "block_end r =
     (let ws = takeWhile is_space r
      in if CHR 0x0A \<in> set ws then Some (rev (dropWhile (\<lambda>c. c \<noteq> CHR 0x0A) (rev ws)))
         else if r = [] then Some []
         else None)"

text \<open>\<^verbatim>\<open>.*?\](?:\s*\n|$)\<close>: the lazy \<^verbatim>\<open>.*?\<close> stops at the first closing bracket after
  which the end of the block matches.\<close>

fun lazy_body :: "string \<Rightarrow> string option" where
  "lazy_body [] = None"
| "lazy_body (c # cs) =
     (if c = CHR '']'' then
        (case block_end cs of
           Some e \<Rightarrow> Some (c # e)
         | None \<Rightarrow> map_option (Cons c) (lazy_body cs))
      else map_option (Cons c) (lazy_body cs))"

text \<open>A match that starts at the first character of \<open>s\<close>; the result is the group. After
  the marker the greedy \<^verbatim>\<open>\s*\<close> must take the whole run of white space, because the next
  character has to be the opening bracket.\<close>

definition match_here :: "string \<Rightarrow> string option" where
  "match_here s =
     (case strip_prefix marker s of
        None \<Rightarrow> None
      | Some r \<Rightarrow>
          (case dropWhile is_space r of
             [] \<Rightarrow> None
           | c # body \<Rightarrow> if c = CHR ''['' then map_option (Cons c) (lazy_body body) else None))"

text \<open>\<^verbatim>\<open>FindStringSubmatch\<close>: the group of the leftmost match (\<^verbatim>\<open>matches[1]\<close>), \<open>None\<close>
  when nothing matches.\<close>

fun FindStringSubmatch :: "string \<Rightarrow> string option" where
  "FindStringSubmatch [] = match_here []"
| "FindStringSubmatch (c # cs) =
     (case match_here (c # cs) of
        Some g \<Rightarrow> Some g
      | None \<Rightarrow> FindStringSubmatch cs)"

subsection \<open>Decoding JSON (encoding/json)\<close>

text \<open>
  \<^verbatim>\<open>json.Unmarshal\<close> into a \<^verbatim>\<open>[]MemoryCommand\<close>: the text is checked against the JSON
  grammar, then decoded. The model reads the text in two passes, tokens and values. Texts
  are taken to be valid UTF-8, and field names are matched without regard to ASCII case.
\<close>

datatype token =
    TLBracket | TRBracket | TLBrace | TRBrace | TComma | TColon
  | TString string | TNumber string | TTrue | TFalse | TNull

definition is_json_space :: "char \<Rightarrow> bool" where
  "is_json_space c \<longleftrightarrow> c = CHR 0x20 \<or> c = CHR 0x09 \<or> c = CHR 0x0D \<or> c = CHR 0x0A"

definition is_digit :: "char \<Rightarrow> bool" where
  "is_digit c \<longleftrightarrow> (48::nat) \<le> of_char c \<and> of_char c \<le> (57::nat)"

text \<open>The grammar of a number:
  \<^verbatim>\<open>-?(0|[1-9][0-9]*)(\.[0-9]+)?([eE][+-]?[0-9]+)?\<close>.\<close>

datatype numstate = NStart | NNeg | NZero | NInt | NDot | NFrac | NE | NESign | NExp

definition num_step :: "numstate \<Rightarrow> char \<Rightarrow> numstate option" where
  "num_step st c =
     (case st of
        NStart \<Rightarrow> if c = CHR ''-'' then Some NNeg else if c = CHR ''0'' then Some NZero
                  else if is_digit c then Some NInt else None
      | NNeg \<Rightarrow> if c = CHR ''0'' then Some NZero else if is_digit c then Some NInt else None
      | NZero \<Rightarrow> if c = CHR ''.'' then Some NDot else if c = CHR ''e'' \<or> c = CHR ''E'' then Some NE else None
      | NInt \<Rightarrow> if is_digit c then Some NInt else if c = CHR ''.'' then Some NDot
                else if c = CHR ''e'' \<or> c = CHR ''E'' then Some NE else None
      | NDot \<Rightarrow> if is_digit c then Some NFrac else None
      | NFrac \<Rightarrow> if is_digit c then Some NFrac else if c = CHR ''e'' \<or> c = CHR ''E'' then Some NE else None
      | NE \<Rightarrow> if c = CHR ''+'' \<or> c = CHR ''-'' then Some NESign else if is_digit c then Some NExp else None
      | NESign \<Rightarrow> if is_digit c then Some NExp else None
      | NExp \<Rightarrow> if is_digit c then Some NExp else None)"

fun num_run :: "numstate \<Rightarrow> string \<Rightarrow> bool" where
  "num_run st [] = (st = NZero \<or> st = NInt \<or> st = NFrac \<or> st = NExp)"
| "num_run st (c # cs) = (case num_step st c of None \<Rightarrow> False | Some st' \<Rightarrow> num_run st' cs)"

text \<open>The characters of a number or of one of the literals \<^verbatim>\<open>true\<close>, \<^verbatim>\<open>false\<close>,
  \<^verbatim>\<open>null\<close>.\<close>

definition is_word_char :: "char \<Rightarrow> bool" where
  "is_word_char c \<longleftrightarrow>
     is_digit c \<or> c = CHR ''-'' \<or> c = CHR ''+'' \<or> c = CHR ''.'' \<or>
     ((97::nat) \<le> of_char c \<and> of_char c \<le> (122::nat)) \<or> c = CHR ''E''"

definition word_token :: "string \<Rightarrow> token option" where
  "word_token w =
     (if w = ''true'' then Some TTrue
      else if w = ''false'' then Some TFalse
      else if w = ''null'' then Some TNull
      else if num_run NStart w then Some (TNumber w)
      else None)"

definition hex_val :: "char \<Rightarrow> nat option" where
  "hex_val c =
     (let n = (of_char c :: nat)
      in if 48 \<le> n \<and> n \<le> 57 then Some (n - 48)
         else if 97 \<le> n \<and> n \<le> 102 then Some (n - 87)
         else if 65 \<le> n \<and> n \<le> 70 then Some (n - 55)
         else None)"

text \<open>\<^verbatim>\<open>getu4\<close>: the four hexadecimal digits of a \<^verbatim>\<open>\u\<close> escape.\<close>

definition getu4 :: "string \<Rightarrow> nat option" where
  "getu4 s =
     (case s of
        a # b # c # d # _ \<Rightarrow>
          (case (hex_val a, hex_val b, hex_val c, hex_val d) of
             (Some x, Some y, Some z, Some u) \<Rightarrow> Some (((x * 16 + y) * 16 + z) * 16 + u)
           | _ \<Rightarrow> None)
      | _ \<Rightarrow> None)"

text \<open>\<^verbatim>\<open>utf8.EncodeRune\<close> of a code point that is not a surrogate.\<close>

definition utf8_encode :: "nat \<Rightarrow> string" where
  "utf8_encode r =
     (if r < 0x80 then [char_of r]
      else if r < 0x800 then [char_of (0xC0 + r div 64), char_of (0x80 + r mod 64)]
      else if r < 0x10000 then
        [char_of (0xE0 + r div 4096), char_of (0x80 + r div 64 mod 64), char_of (0x80 + r mod 64)]
      else
        [char_of (0xF0 + r div 262144), char_of (0x80 + r div 4096 mod 64),
         char_of (0x80 + r div 64 mod 64), char_of (0x80 + r mod 64)])"

definition unescape :: "char \<Rightarrow> char option" where
  "unescape e =
     (if e = CHR 0x22 \<or> e = CHR 0x5C \<or> e = CHR ''/'' then Some e
      else if e = CHR ''b'' then Some (CHR 0x08)
      else if e = CHR ''f'' then Some (CHR 0x0C)
      else if e = CHR ''n'' then Some (CHR 0x0A)
      else if e = CHR ''r'' then Some (CHR 0x0D)
      else if e = CHR ''t'' then Some (CHR 0x09)
      else None)"

text \<open>The escape \<^verbatim>\<open>\uXXXX\<close> at the start of a text, if there is one.\<close>

definition escaped_u :: "string \<Rightarrow> nat option" where
  "escaped_u s =
     (case s of
        b # u # ds \<Rightarrow> if b = CHR 0x5C \<and> u = CHR ''u'' then getu4 ds else None
      | _ \<Rightarrow> None)"

definition with_prefix :: "string \<Rightarrow> (string \<times> string) option \<Rightarrow> (string \<times> string) option" where
  "with_prefix p r = map_option (\<lambda>(s, rest). (p @ s, rest)) r"

text \<open>A string, read from behind its opening quote: the decoded bytes and the text behind
  the closing quote. A surrogate pair is one code point; a lone surrogate is U+FFFD.\<close>

fun unquote :: "string \<Rightarrow> (string \<times> string) option" where
  "unquote [] = None"
| "unquote (c # cs) =
     (if c = CHR 0x22 then Some ([], cs)
      else if c = CHR 0x5C then
        (case cs of
           [] \<Rightarrow> None
         | e # cs' \<Rightarrow>
             if e = CHR ''u'' then
               (case getu4 cs' of
                  None \<Rightarrow> None
                | Some rr \<Rightarrow>
                    if 0xD800 \<le> rr \<and> rr < 0xE000 then
                      (case escaped_u (drop 4 cs') of
                         None \<Rightarrow> with_prefix (utf8_encode 0xFFFD) (unquote (drop 4 cs'))
                       | Some rr1 \<Rightarrow>
                           if rr < 0xDC00 \<and> 0xDC00 \<le> rr1 \<and> rr1 < 0xE000
                           then with_prefix
                                  (utf8_encode ((rr - 0xD800) * 1024 + (rr1 - 0xDC00) + 0x10000))
                                  (unquote (drop 10 cs'))
                           else with_prefix (utf8_encode 0xFFFD) (unquote (drop 4 cs')))
                    else with_prefix (utf8_encode rr) (unquote (drop 4 cs')))
             else
               (case unescape e of
                  None \<Rightarrow> None
                | Some d \<Rightarrow> with_prefix [d] (unquote cs')))
      else if of_char c < (0x20::nat) then None
      else with_prefix [c] (unquote cs))"

lemma unquote_shorter [termination_simp]:
  "unquote cs = Some (s, rest) \<Longrightarrow> length rest \<le> length cs"
proof (induction cs arbitrary: s rest rule: unquote.induct)
  case 1
  then show ?case by simp
next
  case (2 c cs)
  then show ?case
    by (fastforce simp: with_prefix_def split: if_splits list.splits option.splits)
qed

lemma dropWhile_shorter [termination_simp]:
  "length (dropWhile P xs) < Suc (length xs)"
  by (simp add: length_dropWhile_le less_Suc_eq_le)

text \<open>The tokens of a text; \<open>None\<close> when a character fits no token.\<close>

fun lex :: "string \<Rightarrow> token list option" where
  "lex [] = Some []"
| "lex (c # cs) =
     (if is_json_space c then lex cs
      else if c = CHR ''['' then map_option (Cons TLBracket) (lex cs)
      else if c = CHR '']'' then map_option (Cons TRBracket) (lex cs)
      else if c = CHR ''{'' then map_option (Cons TLBrace) (lex cs)
      else if c = CHR ''}'' then map_option (Cons TRBrace) (lex cs)
      else if c = CHR '','' then map_option (Cons TComma) (lex cs)
      else if c = CHR '':'' then map_option (Cons TColon) (lex cs)
      else if c = CHR 0x22 then
        (case unquote cs of
           None \<Rightarrow> None
         | Some (s, rest) \<Rightarrow> map_option (Cons (TString s)) (lex rest))
      else if is_word_char c then
        (case word_token (c # takeWhile is_word_char cs) of
           None \<Rightarrow> None
         | Some t \<Rightarrow> map_option (Cons t) (lex (dropWhile is_word_char cs)))
      else None)"

text \<open>The values of a token sequence, read with a stack of the arrays and objects that
  are still open. An array frame holds its elements so far, an object frame its members so
  far and the key that waits for its value, both in reverse.\<close>

datatype frame = FArray "jvalue list" | FObject "(string \<times> jvalue) list" "string option"

datatype expect = EValue | EValueOrClose | ECommaOrClose | EKeyOrClose | EKey | EColon | EEnd

type_synonym pstate = "frame list \<times> expect \<times> jvalue option"

fun push_value :: "jvalue \<Rightarrow> frame list \<Rightarrow> pstate option" where
  "push_value v [] = Some ([], EEnd, Some v)"
| "push_value v (FArray xs # st) = Some (FArray (v # xs) # st, ECommaOrClose, None)"
| "push_value v (FObject ms (Some k) # st) = Some (FObject ((k, v) # ms) None # st, ECommaOrClose, None)"
| "push_value v (FObject ms None # st) = None"

fun begin_value :: "token \<Rightarrow> frame list \<Rightarrow> pstate option" where
  "begin_value TLBracket st = Some (FArray [] # st, EValueOrClose, None)"
| "begin_value TLBrace st = Some (FObject [] None # st, EKeyOrClose, None)"
| "begin_value (TString s) st = push_value (JString s) st"
| "begin_value (TNumber n) st = push_value (JNumber n) st"
| "begin_value TTrue st = push_value (JBool True) st"
| "begin_value TFalse st = push_value (JBool False) st"
| "begin_value TNull st = push_value JNull st"
| "begin_value _ st = None"

fun close_frame :: "token \<Rightarrow> frame list \<Rightarrow> pstate option" where
  "close_frame TRBracket (FArray xs # st) = push_value (JArray (rev xs)) st"
| "close_frame TRBrace (FObject ms None # st) = push_value (JObject (rev ms)) st"
| "close_frame _ _ = None"

fun begin_key :: "token \<Rightarrow> frame list \<Rightarrow> pstate option" where
  "begin_key (TString k) (FObject ms None # st) = Some (FObject ms (Some k) # st, EColon, None)"
| "begin_key _ _ = None"

fun after_comma :: "frame list \<Rightarrow> pstate option" where
  "after_comma (FArray xs # st) = Some (FArray xs # st, EValue, None)"
| "after_comma (FObject ms None # st) = Some (FObject ms None # st, EKey, None)"
| "after_comma _ = None"

fun parse_step :: "pstate \<Rightarrow> token \<Rightarrow> pstate option" where
  "parse_step (st, EValue, r) t = begin_value t st"
| "parse_step (st, EValueOrClose, r) t = (if t = TRBracket then close_frame t st else begin_value t st)"
| "parse_step (st, ECommaOrClose, r) t = (if t = TComma then after_comma st else close_frame t st)"
| "parse_step (st, EKeyOrClose, r) t = (if t = TRBrace then close_frame t st else begin_key t st)"
| "parse_step (st, EKey, r) t = begin_key t st"
| "parse_step (st, EColon, r) t = (if t = TColon then Some (st, EValue, None) else None)"
| "parse_step (st, EEnd, r) t = None"

fun parse_tokens :: "pstate \<Rightarrow> token list \<Rightarrow> pstate option" where
  "parse_tokens ps [] = Some ps"
| "parse_tokens ps (t # ts) = (case parse_step ps t of None \<Rightarrow> None | Some ps' \<Rightarrow> parse_tokens ps' ts)"

text \<open>A text is one JSON value with white space around it.\<close>

definition parse_json :: "string \<Rightarrow> jvalue option" where
  "parse_json s =
     (case lex s of
        None \<Rightarrow> None
      | Some ts \<Rightarrow>
          (case parse_tokens ([], EValue, None) ts of
             Some ([], EEnd, Some v) \<Rightarrow> Some v
           | _ \<Rightarrow> None))"

text \<open>ASCII letters in lower case.\<close>

definition lower :: "char \<Rightarrow> char" where
  "lower c = (if (65::nat) \<le> of_char c \<and> of_char c \<le> (90::nat) then char_of (of_char c + (32::nat)) else c)"

text \<open>One member of a JSON object stored into a \<^verbatim>\<open>MemoryCommand\<close>, by the JSON tags of the
  struct: a string goes to a string field, an object is added to the map, \<^verbatim>\<open>null\<close> leaves
  a string and clears the map, and a key that names no field is skipped. \<open>None\<close> is a value
  of the wrong type (\<^verbatim>\<open>UnmarshalTypeError\<close>); within an object the last of equal keys
  wins.\<close>

definition set_field :: "MemoryCommand \<Rightarrow> string \<times> jvalue \<Rightarrow> MemoryCommand option" where
  "set_field cmd kv =
     (let k = map lower (fst kv); v = snd kv
      in if k = ''command'' then
           (case v of JString s \<Rightarrow> Some (cmd\<lparr>Command := s\<rparr>) | JNull \<Rightarrow> Some cmd | _ \<Rightarrow> None)
         else if k = ''reason'' then
           (case v of JString s \<Rightarrow> Some (cmd\<lparr>Reason := s\<rparr>) | JNull \<Rightarrow> Some cmd | _ \<Rightarrow> None)
         else if k = ''data'' then
           (case v of
              JObject ms \<Rightarrow> Some (cmd\<lparr>Data := Data cmd ++ map_of (rev ms)\<rparr>)
            | JNull \<Rightarrow> Some (cmd\<lparr>Data := Map.empty\<rparr>)
            | _ \<Rightarrow> None)
         else Some cmd)"

fun set_fields :: "MemoryCommand \<Rightarrow> (string \<times> jvalue) list \<Rightarrow> MemoryCommand option" where
  "set_fields cmd [] = Some cmd"
| "set_fields cmd (kv # kvs) = (case set_field cmd kv of None \<Rightarrow> None | Some cmd' \<Rightarrow> set_fields cmd' kvs)"

definition zeroCommand :: MemoryCommand where
  "zeroCommand = \<lparr>Command = [], Reason = [], Data = Map.empty\<rparr>"

fun decode_command :: "jvalue \<Rightarrow> MemoryCommand option" where
  "decode_command (JObject ms) = set_fields zeroCommand ms"
| "decode_command JNull = Some zeroCommand"
| "decode_command _ = None"

fun decode_commands :: "jvalue list \<Rightarrow> MemoryCommand list option" where
  "decode_commands [] = Some []"
| "decode_commands (v # vs) =
     (case decode_command v of
        None \<Rightarrow> None
      | Some cmd \<Rightarrow> map_option (Cons cmd) (decode_commands vs))"

text \<open>\<^verbatim>\<open>json.Unmarshal(data, &commands)\<close> for a nil slice \<^verbatim>\<open>commands\<close>: \<open>None\<close> is an error
  (of syntax or of type), \<open>Some\<close> the slice decoded.\<close>

definition Unmarshal :: "string \<Rightarrow> MemoryCommand list option" where
  "Unmarshal data =
     (case parse_json data of
        None \<Rightarrow> None
      | Some JNull \<Rightarrow> Some []
      | Some (JArray vs) \<Rightarrow> decode_commands vs
      | Some _ \<Rightarrow> None)"

text \<open>\<^verbatim>\<open>parseMemoryCommands\<close>: no match or a decoding error is the nil slice.\<close>

definition parseMemoryCommands :: "string \<Rightarrow> MemoryCommand list" where
  "parseMemoryCommands response =
     (case FindStringSubmatch response of
        None \<Rightarrow> []
      | Some m \<Rightarrow>
          (case Unmarshal m of
             None \<Rightarrow> []
           | Some commands \<Rightarrow> commands))"

section \<open>The service\<close>

subsection \<open>The summary of a response (extractSummary)\<close>

text \<open>\<^verbatim>\<open>Split\<close> at \<^verbatim>\<open>\r?\n\<close>: \<open>acc\<close> is the line read so far, in reverse. A carriage return
  before a newline belongs to the separator.\<close>

fun split_lines :: "string \<Rightarrow> string \<Rightarrow> string list" where
  "split_lines acc [] = [rev acc]"
| "split_lines acc (c # cs) =
     (if c = CHR 0x0A then rev acc # split_lines [] cs
      else if c = CHR 0x0D \<and> cs \<noteq> [] \<and> hd cs = CHR 0x0A then split_lines acc cs
      else split_lines (c # acc) cs)"

text \<open>The class \<^verbatim>\<open>[#\s*-]\<close> that is cut from the start of a line.\<close>

definition is_decoration :: "char \<Rightarrow> bool" where
  "is_decoration c \<longleftrightarrow> c = CHR ''#'' \<or> is_space c \<or> c = CHR ''*'' \<or> c = CHR ''-''"

definition cut150 :: "string \<Rightarrow> string" where
  "cut150 t = (if length t > 150 then take 147 t @ ''...'' else t)"

fun first_line :: "string list \<Rightarrow> string option" where
  "first_line [] = None"
| "first_line (line # lines) =
     (let trimmed = dropWhile is_decoration line
      in if length trimmed > 0 then Some (cut150 trimmed) else first_line lines)"

definition extractSummary :: "string \<Rightarrow> string" where
  "extractSummary response =
     (case first_line (split_lines [] response) of
        Some t \<Rightarrow> t
      | None \<Rightarrow> cut150 response)"

subsection \<open>State and environment\<close>

text \<open>The records of the logger that say what became of a command, of a cycle or of the
  lock; the other records of the source carry no decision and are left out.\<close>

datatype slog_record =
    WarnCommandFailed string error   \<comment> \<open>Failed to execute memory command\<close>
  | InfoCommandDone string string    \<comment> \<open>the check mark, the command and its reason\<close>
  | WarnLogFailed error              \<comment> \<open>Failed to append to log\<close>
  | ErrorCycleFailed error           \<comment> \<open>Cycle failed\<close>
  | WarnStalePID goint               \<comment> \<open>Removing stale PID file\<close>

record Service =
  cycleNumber :: goint
  running :: bool
  logger :: "slog_record list"

text \<open>What one cycle reads from outside the state directory: the clock at each call of
  \<^verbatim>\<open>time.Now()\<close>, the duration printed at the end, the application behind
  \<^verbatim>\<open>AppInterface\<close>, and whether writes go through. \<open>CoderAgentRun\<close> gives the error of
  the call, or the response that \<^verbatim>\<open>CoderAgentGetLastResponse\<close> returns once the run is
  done.\<close>

record cycle_env =
  now_load :: gotime
  now_prompt :: gotime
  now_backup :: gotime
  now_command :: "nat \<Rightarrow> gotime"
  now_save :: gotime
  now_log :: gotime
  duration :: string
  SessionsCreate :: "string \<Rightarrow> error + string"
  CoderAgentRun :: "string \<Rightarrow> string \<Rightarrow> error + string"
  fs :: faults

subsection \<open>One cycle (runCycle)\<close>

text \<open>The loop over the commands: a command that fails is logged and the loop goes on.
  \<open>k\<close> counts the commands, for the clock.\<close>

fun executeCommands ::
  "(nat \<Rightarrow> gotime) \<Rightarrow> goint \<Rightarrow> nat \<Rightarrow> MemoryCommand list \<Rightarrow> Context \<times> slog_record list
     \<Rightarrow> Context \<times> slog_record list" where
  "executeCommands clk cycle k [] (ctx, lg) = (ctx, lg)"
| "executeCommands clk cycle k (cmd # cmds) (ctx, lg) =
     (case ExecuteMemoryCommand (clk k) ctx cmd cycle of
        (Some err, ctx') \<Rightarrow>
          executeCommands clk cycle (Suc k) cmds (ctx', lg @ [WarnCommandFailed (Command cmd) err])
      | (None, ctx') \<Rightarrow>
          executeCommands clk cycle (Suc k) cmds (ctx', lg @ [InfoCommandDone (Command cmd) (Reason cmd)]))"

text \<open>The block \<^verbatim>\<open>if len(memoryCommands) > 0\<close>: the backup, whose error is dropped, then
  the commands.\<close>

definition processCommands ::
  "cycle_env \<Rightarrow> MemoryCommand list \<Rightarrow> Context \<Rightarrow> Service \<times> world \<Rightarrow> Context \<times> Service \<times> world" where
  "processCommands env memoryCommands ctx sw =
     (let s = fst sw; w = snd sw
      in if length memoryCommands > 0 then
           (let w' = snd (BackupContext (now_backup env) (fs env)
                            (''cycle_'' @ show_goint (cycleNumber s)) w);
                (ctx', lg) = executeCommands (now_command env) (cycleNumber s) 0 memoryCommands
                               (ctx, logger s)
            in (ctx', s\<lparr>logger := lg\<rparr>, w'))
         else (ctx, s, w))"

definition cycleLogEntry :: "goint \<Rightarrow> string \<Rightarrow> nat \<Rightarrow> string \<Rightarrow> string" where
  "cycleLogEntry n summary count dur =
     ''**Cycle '' @ show_goint n @ ''**\<newline>\<newline>'' @
     ''Summary: '' @ summary @ ''\<newline>'' @
     ''Memory Updates: '' @ show_nat count @ '' commands\<newline>'' @
     ''Duration: '' @ dur @ ''\<newline>'' @
     ''Status: '' @ [CHR 0xE2, CHR 0x9C, CHR 0x85] @ '' Success\<newline>''"

text \<open>The end of a cycle, from \<^verbatim>\<open>ctx.Metadata.TotalCycles = s.cycleNumber\<close> on: the save,
  whose error fails the cycle, and the entry in the mission log, whose error is a
  warning.\<close>

definition finishCycle ::
  "cycle_env \<Rightarrow> string \<Rightarrow> nat \<Rightarrow> Context \<Rightarrow> Service \<times> world \<Rightarrow> error option \<times> Service \<times> world" where
  "finishCycle env response count ctx sw =
     (let s = fst sw; w = snd sw;
          ctx = ctx\<lparr>Metadata := (Metadata ctx)\<lparr>TotalCycles := cycleNumber s\<rparr>\<rparr>
      in case SaveContext (now_save env) (fs env) ctx w of
           (Some err, _, w) \<Rightarrow> (Some (ErrSaveContext err), s, w)
         | (None, _, w) \<Rightarrow>
             (let summary = extractSummary response;
                  logEntry = cycleLogEntry (cycleNumber s) summary count (duration env)
              in case AppendLog (now_log env) (fs env) logEntry w of
                   (Some err, w) \<Rightarrow> (None, s\<lparr>logger := logger s @ [WarnLogFailed err]\<rparr>, w)
                 | (None, w) \<Rightarrow> (None, s, w)))"

text \<open>The first half of \<^verbatim>\<open>runCycle\<close>, from the loading of the state to the response of
  the agent: the context loaded and the response, or the error that ends the cycle. \<open>sw\<close>
  holds the cycle number already incremented.\<close>

definition delegate :: "cycle_env \<Rightarrow> Service \<times> world \<Rightarrow> error + Context \<times> string" where
  "delegate env sw =
     (let s = fst sw; w = snd sw
      in case LoadContext (now_load env) w of
           Inl err \<Rightarrow> Inl (ErrLoadContext err)
         | Inr ctx \<Rightarrow>
        (case LoadGoals w of
           Inl err \<Rightarrow> Inl (ErrLoadGoals err)
         | Inr goals \<Rightarrow>
        (case LoadMission w of
           Inl err \<Rightarrow> Inl (ErrLoadMission err)
         | Inr mission \<Rightarrow>
        (let userPrompt = BuildUserPrompt (now_prompt env) ctx goals mission (cycleNumber s);
             sessionTitle = ''MCP Heartbeat Cycle '' @ show_goint (cycleNumber s)
         in case SessionsCreate env sessionTitle of
              Inl err \<Rightarrow> Inl (ErrCreateSession err)
            | Inr sessionID \<Rightarrow>
           (case CoderAgentRun env sessionID userPrompt of
              Inl err \<Rightarrow> Inl (ErrRunAgent err)
            | Inr response \<Rightarrow> Inr (ctx, response))))))"

text \<open>\<^verbatim>\<open>runCycle\<close>. The result is the error returned, the service and the state
  directory.\<close>

definition runCycle :: "cycle_env \<Rightarrow> Service \<times> world \<Rightarrow> error option \<times> Service \<times> world" where
  "runCycle env sw =
     (let s = (fst sw)\<lparr>cycleNumber := cycleNumber (fst sw) + 1\<rparr>; w = snd sw
      in case delegate env (s, w) of
           Inl err \<Rightarrow> (Some err, s, w)
         | Inr (ctx, response) \<Rightarrow>
             (let memoryCommands = parseMemoryCommands response;
                  (ctx, s, w) = processCommands env memoryCommands ctx (s, w)
              in finishCycle env response (length memoryCommands) ctx (s, w)))"

subsection \<open>The main loop and the lock (Start, acquireLock, releaseLock)\<close>

text \<open>What the \<^verbatim>\<open>select\<close> of the main loop receives: a tick, with the environment of the
  cycle it starts, a signal, or the cancellation of the context by \<^verbatim>\<open>Stop\<close>.\<close>

datatype event = Tick cycle_env | Signal | Cancelled

fun mainLoop :: "event list \<Rightarrow> Service \<times> world \<Rightarrow> Service \<times> world" where
  "mainLoop [] sw = sw"
| "mainLoop (e # es) sw =
     (if \<not> running (fst sw) then sw
      else case e of
             Tick env \<Rightarrow>
               (case runCycle env sw of
                  (Some err, s, w) \<Rightarrow> mainLoop es (s\<lparr>logger := logger s @ [ErrorCycleFailed err]\<rparr>, w)
                | (None, s, w) \<Rightarrow> mainLoop es (s, w))
           | _ \<Rightarrow> mainLoop es ((fst sw)\<lparr>running := False\<rparr>, snd sw))"

text \<open>What \<^verbatim>\<open>Start\<close> reads from outside: the identity of the process, the answer of a
  process to signal 0 (\<open>True\<close> when \<^verbatim>\<open>process.Signal\<close> returns no error), whether the PID
  file can be written, the clock and the interval as printed.\<close>

record start_env =
  Getpid :: goint
  Signal0 :: "goint \<Rightarrow> bool"
  pid_write_ok :: bool
  now_initial :: gotime
  now_started :: gotime
  now_stopped :: gotime
  interval :: string
  log_faults :: faults

text \<open>\<^verbatim>\<open>fmt.Sscanf(data, "%d", &v)\<close> for a \<open>v\<close> that is 0: blanks are skipped (a newline
  among them is an error), then an optional sign and decimal digits are read. On an error
  \<open>v\<close> stays 0. Only the ASCII blanks are modelled.\<close>

fun skip_space :: "string \<Rightarrow> string option" where
  "skip_space [] = Some []"
| "skip_space (c # cs) =
     (if c = CHR 0x0A then None
      else if c = CHR 0x20 \<or> c = CHR 0x09 \<or> c = CHR 0x0B \<or> c = CHR 0x0C \<or> c = CHR 0x0D then skip_space cs
      else Some (c # cs))"

definition decimal :: "string \<Rightarrow> nat" where
  "decimal ds = foldl (\<lambda>n c. 10 * n + (of_char c - 48)) 0 ds"

definition Sscanf_d :: "string \<Rightarrow> goint" where
  "Sscanf_d data =
     (case skip_space data of
        None \<Rightarrow> 0
      | Some r \<Rightarrow>
          (let neg = (r \<noteq> [] \<and> hd r = CHR ''-'');
               r' = (if r \<noteq> [] \<and> (hd r = CHR ''+'' \<or> hd r = CHR ''-'') then tl r else r);
               tok = takeWhile is_digit r';
               v = (if neg then - int (decimal tok) else int (decimal tok))
           in if tok = [] then 0
              else if - (2 ^ 63) \<le> v \<and> v < 2 ^ 63 then word_of_int v
              else 0))"

text \<open>The tail of \<^verbatim>\<open>acquireLock\<close>: the PID file is written.\<close>

definition createPIDFile :: "start_env \<Rightarrow> Service \<times> world \<Rightarrow> error option \<times> Service \<times> world" where
  "createPIDFile env sw =
     (if pid_write_ok env
      then (None, fst sw, (snd sw)\<lparr>pidFile := File (show_goint (Getpid env))\<rparr>)
      else (Some (ErrCreatePID osError), fst sw, snd sw))"

text \<open>\<^verbatim>\<open>acquireLock\<close>. \<^verbatim>\<open>os.FindProcess\<close> always succeeds on Unix, so the probe is the
  signal. A PID file that cannot be read is treated like none.\<close>

definition acquireLock :: "start_env \<Rightarrow> Service \<times> world \<Rightarrow> error option \<times> Service \<times> world" where
  "acquireLock env sw =
     (case pidFile (snd sw) of
        File data \<Rightarrow>
          (let oldPID = Sscanf_d data
           in if Signal0 env oldPID then (Some (ErrAlreadyRunning oldPID), fst sw, snd sw)
              else createPIDFile env
                     ((fst sw)\<lparr>logger := logger (fst sw) @ [WarnStalePID oldPID]\<rparr>,
                      (snd sw)\<lparr>pidFile := NoFile\<rparr>))
      | _ \<Rightarrow> createPIDFile env sw)"

definition releaseLock :: "start_env \<Rightarrow> world \<Rightarrow> world" where
  "releaseLock env w =
     (case pidFile w of
        File data \<Rightarrow> if Sscanf_d data = Getpid env then w\<lparr>pidFile := NoFile\<rparr> else w
      | _ \<Rightarrow> w)"

text \<open>\<^verbatim>\<open>Start\<close>, run on the events that the loop receives. \<open>Waiting\<close> is the loop blocked
  in its \<^verbatim>\<open>select\<close> when the events are used up; \<open>Returned\<close> is the error returned, after
  the deferred \<^verbatim>\<open>releaseLock\<close>.\<close>

datatype outcome = Waiting | Returned "error option"

definition Start :: "start_env \<Rightarrow> event list \<Rightarrow> Service \<times> world \<Rightarrow> outcome \<times> Service \<times> world" where
  "Start env events sw =
     (case acquireLock env sw of
        (Some err, s, w) \<Rightarrow> (Returned (Some err), s, w)
      | (None, s, w) \<Rightarrow>
          (let s = s\<lparr>running := True\<rparr>
           in case LoadContext (now_initial env) w of
                Inl err \<Rightarrow> (Returned (Some (ErrInitialContext err)), s, releaseLock env w)
              | Inr ctx \<Rightarrow>
                  (let s = s\<lparr>cycleNumber := TotalCycles (Metadata ctx)\<rparr>;
                       w = snd (AppendLog (now_started env) (log_faults env)
                                  (''**Cycle '' @ show_goint (cycleNumber s) @
                                   '' - Heartbeat Started**\<newline>\<newline>Heartbeat service activated. Interval: '' @
                                   interval env @ ''\<newline>'') w);
                       (s, w) = mainLoop events (s, w)
                   in if running s then (Waiting, s, w)
                      else
                        (let w = snd (AppendLog (now_stopped env) (log_faults env)
                                        (''**Cycle '' @ show_goint (cycleNumber s) @
                                         '' - Heartbeat Stopped**\<newline>\<newline>Heartbeat service deactivated.\<newline>'') w)
                         in (Returned None, s, releaseLock env w)))))"

text \<open>\<^verbatim>\<open>NewService\<close>: the fields of the model at their zero values.\<close>

definition NewService :: Service where
  "NewService = \<lparr>cycleNumber = 0, running = False, logger = []\<rparr>"

section \<open>Notions used by the statements\<close>

text \<open>The validity of a command, by the table of the specification: the kind is one of
  the five known ones and each required field is present in the data with a text.\<close>

definition has_text :: "MemoryCommand \<Rightarrow> string \<Rightarrow> bool" where
  "has_text cmd field = (case Data cmd field of Some (JString t) \<Rightarrow> True | _ \<Rightarrow> False)"

definition well_formed_command :: "MemoryCommand \<Rightarrow> bool" where
  "well_formed_command cmd \<longleftrightarrow>
     Command cmd = ''add_observation'' \<and> has_text cmd ''content'' \<or>
     Command cmd = ''add_lesson'' \<and> has_text cmd ''content'' \<or>
     Command cmd = ''add_hypothesis'' \<and> has_text cmd ''content'' \<or>
     Command cmd = ''add_strategy'' \<and> has_text cmd ''name'' \<and> has_text cmd ''description'' \<or>
     Command cmd = ''prune_old''"

text \<open>The cycle total that the context file holds, when it holds a context.\<close>

definition persistedTotal :: "world \<Rightarrow> goint option" where
  "persistedTotal w =
     (case contextFile w of File (Wellformed ctx) \<Rightarrow> Some (TotalCycles (Metadata ctx)) | _ \<Rightarrow> None)"

text \<open>Concrete inputs for the examples.\<close>

definition exampleTime :: gotime where
  "exampleTime = \<lparr>year = 2025, month = 10, day = 25, hour = 20, minute = 30, second = 0, zone = ''UTC''\<rparr>"

definition freshWorld :: world where
  "freshWorld = \<lparr>contextFile = NoFile, goalsFile = NoFile, missionFile = NoFile, logFile = [],
                  backups = Map.empty, pidFile = NoFile\<rparr>"

definition exampleFaults :: faults where
  "exampleFaults = \<lparr>context_write_ok = True, backup_mkdir_ok = True, backup_write_ok = True,
                     log_open_ok = True, log_write_ok = True\<rparr>"

definition exampleEnv :: "error + string \<Rightarrow> cycle_env" where
  "exampleEnv result =
     \<lparr>now_load = exampleTime, now_prompt = exampleTime, now_backup = exampleTime,
      now_command = (\<lambda>k. exampleTime), now_save = exampleTime, now_log = exampleTime,
      duration = ''1s'',
      SessionsCreate = (\<lambda>title. Inr ''session''),
      CoderAgentRun = (\<lambda>sessionID prompt. result),
      fs = exampleFaults\<rparr>"

definition exampleStart :: start_env where
  "exampleStart =
     \<lparr>Getpid = 4242, Signal0 = (\<lambda>p. False), pid_write_ok = True,
      now_initial = exampleTime, now_started = exampleTime, now_stopped = exampleTime,
      interval = ''5m0s'', log_faults = exampleFaults\<rparr>"

definition storedWorld :: world where
  "storedWorld = freshWorld\<lparr>contextFile := File (Wellformed (createEmptyContext exampleTime))\<rparr>"

definition bogusCommand :: MemoryCommand where
  "bogusCommand = \<lparr>Command = ''bogus'', Reason = [], Data = Map.empty\<rparr>"

definition observationCommand :: "string \<Rightarrow> MemoryCommand" where
  "observationCommand text = \<lparr>Command = ''add_observation'', Reason = [], Data = [''content'' \<mapsto> JString text]\<rparr>"

definition lessonCommandText :: string where
  \<open>lessonCommandText = ''{"command":"add_lesson","data":{"content":"X","confidence":"high"}}''\<close>

definition observationText :: "string \<Rightarrow> string" where
  \<open>observationText text = ''{"command":"add_observation","data":{"content":"'' @ text @ ''"}}''\<close>

definition bogusBlock :: string where
  \<open>bogusBlock = marker @ ''\<newline>[{"command":"bogus"}]\<newline>''\<close>

definition observationBlock :: "string \<Rightarrow> string" where
  "observationBlock text = marker @ ''\<newline>'' @ ''['' @ observationText text @ '']'' @ ''\<newline>''"

definition twoBlocks :: string where
  "twoBlocks = ''Done.\<newline>'' @ observationBlock ''a'' @ observationBlock ''b''"

section \<open>Loading the knowledge base\<close>

text \<open>
  C10. Loading the context when its file does not exist returns a fresh empty context, with
  the four sequences empty, version 1.0 and a cycle total of 0, and no error. The load
  returns an error exactly when the file exists and cannot be read or cannot be parsed.
\<close>

theorem C10_load_missing_context:
  "(contextFile w = NoFile \<longrightarrow>
      LoadContext now w = Inr (createEmptyContext now) \<and>
      Observations (createEmptyContext now) = [] \<and> Lessons (createEmptyContext now) = [] \<and>
      Hypotheses (createEmptyContext now) = [] \<and> Strategies (createEmptyContext now) = [] \<and>
      Version (Metadata (createEmptyContext now)) = ''1.0'' \<and>
      TotalCycles (Metadata (createEmptyContext now)) = 0) \<and>
   ((\<exists>err. LoadContext now w = Inl err) \<longleftrightarrow>
      contextFile w = NoAccess \<or> contextFile w = File Malformed)"
  by (auto simp: LoadContext_def createEmptyContext_def split: stored.splits json_text.splits)

theorem C10_load_missing_context_witness:
  "contextFile freshWorld = NoFile \<and>
   LoadContext exampleTime freshWorld = Inr (createEmptyContext exampleTime) \<and>
   TotalCycles (Metadata (createEmptyContext exampleTime)) = 0 \<and>
   (\<exists>err. LoadContext exampleTime (freshWorld\<lparr>contextFile := NoAccess\<rparr>) = Inl err)"
  using C10_load_missing_context [of freshWorld exampleTime]
    C10_load_missing_context [of "freshWorld\<lparr>contextFile := NoAccess\<rparr>" exampleTime]
  by (simp add: freshWorld_def)

section \<open>Memory commands\<close>

lemma assertString_has_text: "snd (assertString (Data cmd f)) = has_text cmd f"
  by (auto simp: assertString_def has_text_def split: option.splits jvalue.splits)

lemma ExecuteMemoryCommand_invalid:
  "\<not> well_formed_command cmd \<Longrightarrow> \<exists>err. ExecuteMemoryCommand now ctx cmd cycle = (Some err, ctx)"
  unfolding well_formed_command_def ExecuteMemoryCommand_def
  by (auto simp: assertString_has_text[symmetric] split: prod.splits)

lemma executeCommands_append:
  "executeCommands clk cycle k (pre @ post) st =
     executeCommands clk cycle (k + length pre) post (executeCommands clk cycle k pre st)"
proof (induction pre arbitrary: k st)
  case Nil
  then show ?case by (cases st) simp
next
  case (Cons cmd pre)
  obtain ctx lg where st: "st = (ctx, lg)" by (cases st)
  show ?case
    by (cases "ExecuteMemoryCommand (clk k) ctx cmd cycle") (auto simp: st Cons.IH split: option.splits)
qed

lemma finishCycle_ok:
  "context_write_ok (fs env) \<Longrightarrow> fst (finishCycle env response n ctx sw) = None"
  by (simp add: finishCycle_def SaveContext_def AppendLog_def Let_def)

lemma finishCycle_error:
  "fst (finishCycle env response n ctx sw) = None \<longleftrightarrow> context_write_ok (fs env)"
  by (simp add: finishCycle_def SaveContext_def AppendLog_def Let_def)

lemma runCycle_ok:
  "delegate env ((fst sw)\<lparr>cycleNumber := cycleNumber (fst sw) + 1\<rparr>, snd sw) = Inr (ctx, response) \<Longrightarrow>
   context_write_ok (fs env) \<Longrightarrow> fst (runCycle env sw) = None"
  by (simp add: runCycle_def Let_def finishCycle_ok split: prod.splits)

theorem C5_invalid_command_skipped:
  assumes "\<not> well_formed_command cmd"
  shows "(\<exists>err. ExecuteMemoryCommand now ctx cmd cycle = (Some err, ctx)) \<and>
         (\<exists>err. executeCommands clk cycle k (pre @ cmd # post) st =
                  executeCommands clk cycle (Suc (k + length pre)) post
                    (fst (executeCommands clk cycle k pre st),
                     snd (executeCommands clk cycle k pre st) @ [WarnCommandFailed (Command cmd) err])) \<and>
         (delegate env (s\<lparr>cycleNumber := cycleNumber s + 1\<rparr>, w) = Inr (ctx0, response) \<and>
          cmd \<in> set (parseMemoryCommands response) \<and> context_write_ok (fs env)
            \<longrightarrow> fst (runCycle env (s, w)) = None)"
proof (intro conjI)
  show "\<exists>err. ExecuteMemoryCommand now ctx cmd cycle = (Some err, ctx)"
    using assms by (rule ExecuteMemoryCommand_invalid)
next
  obtain ctx1 lg1 where pre: "executeCommands clk cycle k pre st = (ctx1, lg1)"
    by (cases "executeCommands clk cycle k pre st")
  obtain err where err: "ExecuteMemoryCommand (clk (k + length pre)) ctx1 cmd cycle = (Some err, ctx1)"
    using ExecuteMemoryCommand_invalid[OF assms] by blast
  have "executeCommands clk cycle k (pre @ cmd # post) st =
          executeCommands clk cycle (Suc (k + length pre)) post
            (ctx1, lg1 @ [WarnCommandFailed (Command cmd) err])"
    by (simp add: executeCommands_append pre err)
  then show "\<exists>err. executeCommands clk cycle k (pre @ cmd # post) st =
                  executeCommands clk cycle (Suc (k + length pre)) post
                    (fst (executeCommands clk cycle k pre st),
                     snd (executeCommands clk cycle k pre st) @ [WarnCommandFailed (Command cmd) err])"
    by (auto simp: pre)
next
  show "delegate env (s\<lparr>cycleNumber := cycleNumber s + 1\<rparr>, w) = Inr (ctx0, response) \<and>
          cmd \<in> set (parseMemoryCommands response) \<and> context_write_ok (fs env)
            \<longrightarrow> fst (runCycle env (s, w)) = None"
    using runCycle_ok[of env "(s, w)" ctx0 response] by simp
qed

section \<open>The prompt\<close>

lemma map_nth_from:
  "map (\<lambda>i. f (xs ! i)) [n ..< length xs] = map f (drop n xs)"
  by (simp add: list_eq_iff_nth_eq)

lemma observations_section_drop:
  "observations_section obs =
     (if obs = [] then []
      else ''### Recent Observations\<newline>\<newline>'' @
           concat (map observation_line (drop (length obs - 5) obs)) @ ''\<newline>'')"
proof (cases "obs = []")
  case True
  then show ?thesis by (simp add: observations_section_def)
next
  case False
  have "nat (if int (length obs) - 5 < 0 then 0 else int (length obs) - 5) = length obs - 5"
    by auto
  then show ?thesis
    using False by (simp add: observations_section_def Let_def map_nth_from del: append.simps)
qed

lemma prompt_split:
  "\<exists>before after. \<forall>obs. BuildUserPrompt now (ctx\<lparr>Observations := obs\<rparr>) goals mission n =
       before @ observations_section obs @ after"
proof -
  have "\<forall>obs. BuildUserPrompt now (ctx\<lparr>Observations := obs\<rparr>) goals mission n =
      (''# MCP Heartbeat Cycle '' @ show_goint n @ ''\<newline>\<newline>'' @
     ''**Time**: '' @ format_log_time now @ ''\<newline>\<newline>'' @
     ''## Mission\<newline>\<newline>'' @
     ''Build companies and fortunes for Lennart and Tana. Pursue knowledge, prosperity, and the conquest of space.\<newline>\<newline>'' @
     goals_section goals @
     ''## Your Knowledge\<newline>\<newline>'') @ observations_section obs @
     (lessons_section (Lessons ctx) @
     hypotheses_section (Hypotheses ctx) @
     strategies_section (Strategies ctx) @
     this_cycle_section)"
    by (simp add: BuildUserPrompt_def)
  then show ?thesis by blast
qed

theorem C6_last_five_observations:
  "(\<exists>before after. \<forall>obs. BuildUserPrompt now (ctx\<lparr>Observations := obs\<rparr>) goals mission n =
       before @ observations_section obs @ after) \<and>
   observations_section [o1, o2, o3, o4, o5, o6, o7] =
     ''### Recent Observations\<newline>\<newline>'' @
     observation_line o3 @ observation_line o4 @ observation_line o5 @
     observation_line o6 @ observation_line o7 @ ''\<newline>'' \<and>
   (length obs = 7 \<longrightarrow>
      BuildUserPrompt now (ctx\<lparr>Observations := obs\<rparr>) goals mission n =
      BuildUserPrompt now (ctx\<lparr>Observations := drop 2 obs\<rparr>) goals mission n) \<and>
   (obs \<noteq> [] \<longrightarrow>
      observations_section obs =
        ''### Recent Observations\<newline>\<newline>'' @
        concat (map observation_line (drop (length obs - 5) obs)) @ ''\<newline>'' \<and>
      length (drop (length obs - 5) obs) \<le> 5)"
proof (intro conjI impI)
  show "\<exists>before after. \<forall>obs. BuildUserPrompt now (ctx\<lparr>Observations := obs\<rparr>) goals mission n =
       before @ observations_section obs @ after"
    by (rule prompt_split)
next
  show "observations_section [o1, o2, o3, o4, o5, o6, o7] =
     ''### Recent Observations\<newline>\<newline>'' @
     observation_line o3 @ observation_line o4 @ observation_line o5 @
     observation_line o6 @ observation_line o7 @ ''\<newline>''"
    by (simp add: observations_section_drop)
next
  assume "length obs = 7"
  then have "observations_section obs = observations_section (drop 2 obs)"
    by (auto simp: observations_section_drop)
  then show "BuildUserPrompt now (ctx\<lparr>Observations := obs\<rparr>) goals mission n =
      BuildUserPrompt now (ctx\<lparr>Observations := drop 2 obs\<rparr>) goals mission n"
    by (simp add: BuildUserPrompt_def)
next
  assume "obs \<noteq> []"
  then show "observations_section obs =
        ''### Recent Observations\<newline>\<newline>'' @
        concat (map observation_line (drop (length obs - 5) obs)) @ ''\<newline>''"
    by (simp add: observations_section_drop)
next
  show "length (drop (length obs - 5) obs) \<le> 5" by simp
qed


theorem C4_prompt_function_of_clock:
  "(format_log_time t1 = format_log_time t2 \<longrightarrow>
      BuildUserPrompt t1 ctx goals m1 n = BuildUserPrompt t2 ctx goals m2 n) \<and>
   (BuildUserPrompt t1 ctx goals m1 n = BuildUserPrompt t2 ctx goals m2 n \<longrightarrow>
      format_log_time t1 = format_log_time t2)"
  by (simp add: BuildUserPrompt_def)

lemma show_nat_digit: "n < 10 \<Longrightarrow> show_nat n = [char_of (48 + n)]"
  by (simp add: show_nat.simps)

theorem C4_prompt_depends_on_clock:
  "BuildUserPrompt exampleTime (createEmptyContext exampleTime) \<lparr>gs_Goals = [], gs_Metadata = \<lparr>NextID = 1, gm_UpdatedAt = zeroTime\<rparr>\<rparr> [] 1 \<noteq>
   BuildUserPrompt (exampleTime\<lparr>second := 1\<rparr>) (createEmptyContext exampleTime) \<lparr>gs_Goals = [], gs_Metadata = \<lparr>NextID = 1, gm_UpdatedAt = zeroTime\<rparr>\<rparr> [] 1"
  by (simp add: BuildUserPrompt_def format_log_time_def exampleTime_def pad_def show_nat_digit)

section \<open>The lock\<close>

lemma of_char_digit: "k < 10 \<Longrightarrow> (of_char (char_of (48 + k)) :: nat) = 48 + k"
  by simp

lemma show_nat_digits: "\<forall>c \<in> set (show_nat n). is_digit c"
proof (induction n rule: show_nat.induct)
  case (1 n)
  show ?case
  proof (cases "n < 10")
    case True
    then show ?thesis by (subst show_nat.simps) (simp add: is_digit_def)
  next
    case False
    have "n mod 10 < 10" by simp
    then have "is_digit (char_of (48 + n mod 10))"
      unfolding is_digit_def by (simp only: of_char_digit) simp
    with False 1 show ?thesis by (subst show_nat.simps) simp
  qed
qed

lemma show_nat_nonempty: "show_nat n \<noteq> []"
  by (subst show_nat.simps) simp

lemma decimal_snoc: "decimal (ds @ [c]) = 10 * decimal ds + (of_char c - 48)"
  by (simp add: decimal_def)

lemma decimal_show_nat: "decimal (show_nat n) = n"
proof (induction n rule: show_nat.induct)
  case (1 n)
  show ?case
  proof (cases "n < 10")
    case True
    then show ?thesis by (subst show_nat.simps) (simp add: decimal_def)
  next
    case False
    have "n mod 10 < 10" by simp
    then have d: "(of_char (char_of (48 + n mod 10)) :: nat) - 48 = n mod 10"
      by (simp only: of_char_digit)
    from False 1 have "decimal (show_nat (n div 10)) = n div 10" by simp
    with False d show ?thesis
      by (subst show_nat.simps) (simp add: decimal_snoc del: of_char_of)
  qed
qed

lemma is_digit_not_blank:
  "is_digit c \<Longrightarrow> c \<noteq> CHR 0x0A \<and> c \<noteq> CHR 0x20 \<and> c \<noteq> CHR 0x09 \<and> c \<noteq> CHR 0x0B \<and> c \<noteq> CHR 0x0C \<and> c \<noteq> CHR 0x0D
     \<and> c \<noteq> CHR ''+'' \<and> c \<noteq> CHR ''-''"
  by (auto simp: is_digit_def)

lemma hd_show_nat_digit: "is_digit (hd (show_nat n))"
  using show_nat_digits[of n] show_nat_nonempty[of n] by (cases "show_nat n") auto

lemma takeWhile_show_nat: "takeWhile is_digit (show_nat n) = show_nat n"
  using show_nat_digits by (simp add: takeWhile_eq_all_conv)

lemma skip_space_show_nat: "skip_space (show_nat n) = Some (show_nat n)"
  using hd_show_nat_digit[of n] show_nat_nonempty[of n] is_digit_not_blank[of "hd (show_nat n)"]
  by (cases "show_nat n") auto

lemma Sscanf_d_show_goint: "Sscanf_d (show_goint p) = p"
proof (cases "sint p < 0")
  case True
  have b: "- (2 ^ 63) \<le> sint p" using sint_ge[of p] by simp
  have v: "- int (decimal (show_nat (nat (- sint p)))) = sint p"
    using True by (simp add: decimal_show_nat)
  have "show_goint p = CHR ''-'' # show_nat (nat (- sint p))"
    using True by (simp add: show_goint_def show_int_def)
  then show ?thesis
    using True b v
    by (simp add: Sscanf_d_def takeWhile_show_nat show_nat_nonempty Let_def)
next
  case False
  have b: "sint p < 2 ^ 63" using sint_lt[of p] by simp
  have v: "int (decimal (show_nat (nat (sint p)))) = sint p"
    using False by (simp add: decimal_show_nat)
  have s: "show_goint p = show_nat (nat (sint p))"
    using False by (simp add: show_goint_def show_int_def)
  have h: "hd (show_nat (nat (sint p))) \<noteq> CHR ''-''" "hd (show_nat (nat (sint p))) \<noteq> CHR ''+''"
    using hd_show_nat_digit[of "nat (sint p)"] is_digit_not_blank by blast+
  show ?thesis
    using False b v h
    by (simp add: s Sscanf_d_def skip_space_show_nat takeWhile_show_nat show_nat_nonempty Let_def)
qed

theorem C7_acquire_lock:
  "(pidFile w = File data \<and> Signal0 env (Sscanf_d data) \<longrightarrow>
      acquireLock env (s, w) = (Some (ErrAlreadyRunning (Sscanf_d data)), s, w)) \<and>
   (pidFile w = File data \<and> \<not> Signal0 env (Sscanf_d data) \<longrightarrow>
      acquireLock env (s, w) =
        createPIDFile env (s\<lparr>logger := logger s @ [WarnStalePID (Sscanf_d data)]\<rparr>, w\<lparr>pidFile := NoFile\<rparr>)) \<and>
   (pidFile w = File data \<and> \<not> Signal0 env (Sscanf_d data) \<and> pid_write_ok env \<longrightarrow>
      (\<exists>s'. acquireLock env (s, w) = (None, s', w\<lparr>pidFile := File (show_goint (Getpid env))\<rparr>)) \<and>
      Sscanf_d (show_goint (Getpid env)) = Getpid env)"
  by (auto simp: acquireLock_def createPIDFile_def Let_def Sscanf_d_show_goint)

section \<open>The extraction of the command block\<close>

lemma strip_prefix_Some: "strip_prefix p s = Some r \<longleftrightarrow> s = p @ r"
  by (induction p s rule: strip_prefix.induct) auto

lemma match_here_marker: "match_here s = Some g \<Longrightarrow> \<exists>r. s = marker @ r"
  by (auto simp: match_here_def strip_prefix_Some split: option.splits)

lemma FindStringSubmatch_sublist:
  "FindStringSubmatch s = Some g \<Longrightarrow> sublist marker s"
proof (induction s)
  case Nil
  then show ?case by (auto dest!: match_here_marker simp: marker_def)
next
  case (Cons c cs)
  show ?case
  proof (cases "match_here (c # cs)")
    case None
    with Cons have "sublist marker cs" by simp
    then show ?thesis by (simp add: sublist_Cons_right)
  next
    case (Some g')
    then obtain r where "c # cs = marker @ r" using match_here_marker by blast
    then show ?thesis by (metis sublist_appendI append_Nil)
  qed
qed

lemma no_marker_no_commands:
  "\<not> sublist marker response \<Longrightarrow> parseMemoryCommands response = []"
  using FindStringSubmatch_sublist[of response]
  by (cases "FindStringSubmatch response") (auto simp: parseMemoryCommands_def)

(* block end *)
lemma block_end_gap:
  assumes "\<forall>c \<in> set gap. is_space c" and "gap \<noteq> []" and "last gap = CHR 0x0A"
    and "CHR 0x0A \<notin> set (takeWhile is_space rest)"
  shows "block_end (gap @ rest) = Some gap"
proof -
  obtain g where g: "gap = g @ [CHR 0x0A]" using assms(2,3) by (metis append_butlast_last_id)
  have tw: "takeWhile is_space (gap @ rest) = gap @ takeWhile is_space rest"
    using assms(1) by (simp add: takeWhile_append2)
  have mem: "CHR 0x0A \<in> set (takeWhile is_space (gap @ rest))"
    unfolding tw using g by simp
  have "\<And>x. x \<in> set (rev (takeWhile is_space rest)) \<Longrightarrow> x \<noteq> CHR 0x0A"
    using assms(4) by auto
  then have "dropWhile (\<lambda>c. c \<noteq> CHR 0x0A) (rev (takeWhile is_space rest) @ rev gap) =
               dropWhile (\<lambda>c. c \<noteq> CHR 0x0A) (rev gap)"
    by (rule dropWhile_append2)
  also have "\<dots> = rev gap" by (simp add: g)
  finally have dw: "dropWhile (\<lambda>c. c \<noteq> CHR 0x0A) (rev (takeWhile is_space (gap @ rest))) = rev gap"
    unfolding tw by simp
  show ?thesis
    unfolding block_end_def Let_def using mem dw by simp
qed

lemma lazy_body_flat:
  assumes "CHR '']'' \<notin> set body" and "block_end r = Some e"
  shows "lazy_body (body @ CHR '']'' # r) = Some (body @ CHR '']'' # e)"
  using assms by (induction body) auto

lemma match_here_block:
  assumes "\<forall>c \<in> set ws. is_space c" and "CHR '']'' \<notin> set body" and "block_end r = Some e"
  shows "match_here (marker @ ws @ CHR ''['' # body @ CHR '']'' # r) = Some (CHR ''['' # body @ CHR '']'' # e)"
proof -
  have "dropWhile is_space (ws @ CHR ''['' # body @ CHR '']'' # r) = CHR ''['' # body @ CHR '']'' # r"
    using assms(1) by (simp add: dropWhile_append2 is_space_def)
  then show ?thesis
    using lazy_body_flat[OF assms(2,3)]
    by (simp add: match_here_def strip_prefix_Some[THEN iffD2])
qed

lemma take_drop_inside:
  "k + n \<le> length a \<Longrightarrow> take n (drop k (a @ b)) = take n (drop k a)"
  by simp

lemma marker_not_inside:
  assumes "\<not> sublist marker (pre @ butlast marker)" and "pre = p1 @ c # p2"
  shows "match_here (c # p2 @ marker @ r) = None"
proof (rule ccontr)
  assume "match_here (c # p2 @ marker @ r) \<noteq> None"
  then obtain q where q: "c # p2 @ marker @ r = marker @ q"
    using match_here_marker by fastforce
  have len: "length marker = 16" by (simp add: marker_def)
  have m: "marker = butlast marker @ [last marker]" by (simp add: marker_def)
  have "take 16 (c # p2 @ marker @ r) = marker" using q len by simp
  moreover have "c # p2 @ marker @ r = (c # p2 @ butlast marker) @ (last marker # r)"
    using m by (metis append.assoc append_Cons append_Nil)
  moreover have "16 \<le> length (c # p2 @ butlast marker)" by (simp add: marker_def)
  ultimately have "take 16 (c # p2 @ butlast marker) = marker" by simp
  then have "\<exists>z. c # p2 @ butlast marker = marker @ z"
    by (metis append_take_drop_id)
  then obtain z where "c # p2 @ butlast marker = marker @ z" by blast
  then have "pre @ butlast marker = p1 @ marker @ z" using assms(2) by simp
  then have "sublist marker (pre @ butlast marker)" unfolding sublist_def by blast
  with assms(1) show False by contradiction
qed

lemma FindStringSubmatch_skip:
  assumes "\<not> sublist marker (pre @ butlast marker)"
  shows "FindStringSubmatch (pre @ marker @ r) = FindStringSubmatch (marker @ r)"
proof -
  have "\<And>p1. pre = p1 @ p2 \<Longrightarrow> FindStringSubmatch (p2 @ marker @ r) = FindStringSubmatch (marker @ r)" for p2
  proof (induction p2)
    case Nil
    then show ?case by simp
  next
    case (Cons c p2)
    have "match_here (c # p2 @ marker @ r) = None"
      using marker_not_inside[OF assms Cons.prems] .
    moreover have "FindStringSubmatch (p2 @ marker @ r) = FindStringSubmatch (marker @ r)"
      using Cons.IH[of "p1 @ [c]"] Cons.prems by simp
    ultimately show ?case by simp
  qed
  then show ?thesis by blast
qed

lemma FindStringSubmatch_here:
  "match_here s = Some g \<Longrightarrow> FindStringSubmatch s = Some g"
  by (cases s) auto

lemma first_block:
  assumes "\<not> sublist marker (pre @ butlast marker)"
    and "\<forall>c \<in> set ws. is_space c" and "CHR '']'' \<notin> set body"
    and "\<forall>c \<in> set gap. is_space c" and "gap \<noteq> []" and "last gap = CHR 0x0A"
    and "CHR 0x0A \<notin> set (takeWhile is_space rest)"
  shows "FindStringSubmatch (pre @ marker @ ws @ ''['' @ body @ '']'' @ gap @ rest) = Some (''['' @ body @ '']'' @ gap)"
proof -
  have "match_here (marker @ ws @ CHR ''['' # body @ CHR '']'' # gap @ rest) = Some (CHR ''['' # body @ CHR '']'' # gap)"
    using match_here_block[OF assms(2,3) block_end_gap[OF assms(4-7)]] .
  then show ?thesis
    using FindStringSubmatch_skip[OF assms(1)] FindStringSubmatch_here by simp
qed

section \<open>The cycle\<close>

lemma BackupContext_backups:
  "backups (snd (BackupContext now fl reason w)) =
     (case contextFile w of
        File bytes \<Rightarrow> if backup_mkdir_ok fl \<and> backup_write_ok fl
                      then (backups w)(backupPath now reason \<mapsto> bytes) else backups w
      | _ \<Rightarrow> backups w)"
  by (simp add: BackupContext_def split: stored.splits)

lemma BackupContext_rest:
  "contextFile (snd (BackupContext now fl reason w)) = contextFile w"
  "logFile (snd (BackupContext now fl reason w)) = logFile w"
  by (simp_all add: BackupContext_def split: stored.splits)

lemma processCommands_facts:
  assumes "processCommands env cmds ctx (s, w) = (ctx', s', w')"
  shows "cycleNumber s' = cycleNumber s" and "running s' = running s"
    and "contextFile w' = contextFile w"
    and "backups w' =
           (if cmds \<noteq> [] then backups (snd (BackupContext (now_backup env) (fs env)
                                   (''cycle_'' @ show_goint (cycleNumber s)) w))
            else backups w)"
    and "ctx' = (if cmds \<noteq> [] then fst (executeCommands (now_command env) (cycleNumber s) 0 cmds (ctx, logger s)) else ctx)"
    and "logger s' = (if cmds \<noteq> [] then snd (executeCommands (now_command env) (cycleNumber s) 0 cmds (ctx, logger s)) else logger s)"
  using assms
  by (auto simp: processCommands_def Let_def BackupContext_rest split: prod.splits if_splits)

lemma finishCycle_facts:
  assumes "finishCycle env response n ctx (s, w) = (r, s', w')"
  shows "cycleNumber s' = cycleNumber s" and "running s' = running s"
    and "backups w' = backups w"
    and "r = (if context_write_ok (fs env) then None else Some (ErrSaveContext (ErrWriteContext osError)))"
    and "contextFile w' =
           (if context_write_ok (fs env)
            then File (Wellformed (ctx\<lparr>Metadata := (Metadata ctx)\<lparr>TotalCycles := cycleNumber s, UpdatedAt := now_save env\<rparr>\<rparr>))
            else contextFile w)"
    and "\<exists>more. logger s' = logger s @ more \<and> (\<forall>e. ErrorCycleFailed e \<notin> set more)"
  using assms
  by (auto simp: finishCycle_def SaveContext_def AppendLog_def Let_def split: prod.splits if_splits)

lemma executeCommands_logger:
  "\<exists>more. snd (executeCommands clk cycle k cmds (ctx, lg)) = lg @ more \<and> (\<forall>e. ErrorCycleFailed e \<notin> set more)"
proof (induction cmds arbitrary: k ctx lg)
  case Nil
  then show ?case by simp
next
  case (Cons cmd cmds)
  obtain r ctx' where e: "ExecuteMemoryCommand (clk k) ctx cmd cycle = (r, ctx')"
    by (cases "ExecuteMemoryCommand (clk k) ctx cmd cycle")
  show ?case
  proof (cases r)
    case None
    obtain more where "snd (executeCommands clk cycle (Suc k) cmds (ctx', lg @ [InfoCommandDone (Command cmd) (Reason cmd)]))
        = (lg @ [InfoCommandDone (Command cmd) (Reason cmd)]) @ more" "\<forall>e. ErrorCycleFailed e \<notin> set more"
      using Cons.IH by blast
    then show ?thesis using e None
      by (intro exI[of _ "InfoCommandDone (Command cmd) (Reason cmd) # more"]) simp
  next
    case (Some err)
    obtain more where "snd (executeCommands clk cycle (Suc k) cmds (ctx', lg @ [WarnCommandFailed (Command cmd) err]))
        = (lg @ [WarnCommandFailed (Command cmd) err]) @ more" "\<forall>e. ErrorCycleFailed e \<notin> set more"
      using Cons.IH by blast
    then show ?thesis using e Some
      by (intro exI[of _ "WarnCommandFailed (Command cmd) err # more"]) simp
  qed
qed

text \<open>What a cycle does, by its outcome.\<close>

lemma runCycle_failed:
  assumes "delegate env (s\<lparr>cycleNumber := cycleNumber s + 1\<rparr>, w) = Inl err"
  shows "runCycle env (s, w) = (Some err, s\<lparr>cycleNumber := cycleNumber s + 1\<rparr>, w)"
  using assms by (simp add: runCycle_def Let_def)

lemma runCycle_delegated:
  assumes "delegate env (s\<lparr>cycleNumber := cycleNumber s + 1\<rparr>, w) = Inr (ctx, response)"
    and "runCycle env (s, w) = (r, s', w')"
  shows "cycleNumber s' = cycleNumber s + 1" and "running s' = running s"
    and "r = (if context_write_ok (fs env) then None else Some (ErrSaveContext (ErrWriteContext osError)))"
    and "backups w' =
           (if parseMemoryCommands response \<noteq> []
            then backups (snd (BackupContext (now_backup env) (fs env)
                                 (''cycle_'' @ show_goint (cycleNumber s + 1)) w))
            else backups w)"
    and "contextFile w' =
           (if context_write_ok (fs env)
            then File (Wellformed
              (let ctx1 = (if parseMemoryCommands response \<noteq> []
                           then fst (executeCommands (now_command env) (cycleNumber s + 1) 0
                                      (parseMemoryCommands response) (ctx, logger s))
                           else ctx)
               in ctx1\<lparr>Metadata := (Metadata ctx1)\<lparr>TotalCycles := cycleNumber s + 1, UpdatedAt := now_save env\<rparr>\<rparr>))
            else contextFile w)"
    and "\<exists>more. logger s' = logger s @ more \<and> (\<forall>e. ErrorCycleFailed e \<notin> set more)"
proof -
  let ?s1 = "s\<lparr>cycleNumber := cycleNumber s + 1\<rparr>"
  let ?cmds = "parseMemoryCommands response"
  obtain ctx2 s2 w2 where p: "processCommands env ?cmds ctx (?s1, w) = (ctx2, s2, w2)"
    by (cases "processCommands env ?cmds ctx (?s1, w)")
  have f: "finishCycle env response (length ?cmds) ctx2 (s2, w2) = (r, s', w')"
    using assms p by (simp add: runCycle_def Let_def)
  note pf = processCommands_facts[OF p] and ff = finishCycle_facts[OF f]
  show "cycleNumber s' = cycleNumber s + 1" using pf(1) ff(1) by simp
  show "running s' = running s" using pf(2) ff(2) by simp
  show "r = (if context_write_ok (fs env) then None else Some (ErrSaveContext (ErrWriteContext osError)))"
    using ff(4) .
  show "backups w' =
           (if ?cmds \<noteq> []
            then backups (snd (BackupContext (now_backup env) (fs env)
                                 (''cycle_'' @ show_goint (cycleNumber s + 1)) w))
            else backups w)"
    using pf(4) ff(3) by simp
  show "contextFile w' =
           (if context_write_ok (fs env)
            then File (Wellformed
              (let ctx1 = (if ?cmds \<noteq> []
                           then fst (executeCommands (now_command env) (cycleNumber s + 1) 0
                                      ?cmds (ctx, logger s))
                           else ctx)
               in ctx1\<lparr>Metadata := (Metadata ctx1)\<lparr>TotalCycles := cycleNumber s + 1, UpdatedAt := now_save env\<rparr>\<rparr>))
            else contextFile w)"
    using pf(1,3,5) ff(5) by (simp add: Let_def)
  have "\<exists>m1. logger s2 = logger s @ m1 \<and> (\<forall>e. ErrorCycleFailed e \<notin> set m1)"
    using pf(6) executeCommands_logger[of "now_command env" "cycleNumber ?s1" 0 ?cmds ctx "logger s"]
    by (cases "?cmds = []") auto
  then show "\<exists>more. logger s' = logger s @ more \<and> (\<forall>e. ErrorCycleFailed e \<notin> set more)"
    using ff(6) by (metis Un_iff append.assoc set_append)
qed

section \<open>Evaluation of the examples\<close>

lemmas json_eval = Unmarshal_def parse_json_def is_json_space_def is_word_char_def is_digit_def
  with_prefix_def set_field_def lower_def zeroCommand_def word_token_def

lemmas regex_eval = match_here_def marker_def is_space_def block_end_def

lemma parse_bogusBlock: "parseMemoryCommands bogusBlock = [bogusCommand]"
  by (simp add: parseMemoryCommands_def bogusBlock_def bogusCommand_def regex_eval json_eval)

lemma parse_observationBlock_a: "parseMemoryCommands (observationBlock ''a'') = [observationCommand ''a'']"
  by (simp add: parseMemoryCommands_def observationBlock_def observationText_def observationCommand_def regex_eval json_eval)

lemma parse_twoBlocks: "parseMemoryCommands twoBlocks = [observationCommand ''a'']"
  by (simp add: parseMemoryCommands_def twoBlocks_def observationBlock_def observationText_def observationCommand_def regex_eval json_eval)

lemma find_twoBlocks:
  "FindStringSubmatch twoBlocks = Some (''['' @ observationText ''a'' @ '']\<newline>'')"
  "FindStringSubmatch (observationBlock ''b'') = Some (''['' @ observationText ''b'' @ '']\<newline>'')"
  by (simp_all add: twoBlocks_def observationBlock_def observationText_def regex_eval)

lemma parse_ok: "parseMemoryCommands ''ok'' = []"
  by (simp add: parseMemoryCommands_def regex_eval)

section \<open>The cycle counter\<close>

lemma sint_succ: "sint (c :: goint) + 1 < 2 ^ 63 \<Longrightarrow> sint (c + 1) = sint c + 1"
proof -
  assume a: "sint c + 1 < 2 ^ 63"
  have b: "- (2 ^ 63) \<le> sint c" using sint_ge[of c] by simp
  have "sint (c + 1) = signed_take_bit 63 (sint c + sint (1::goint))"
    by (simp add: sint_word_add)
  also have "\<dots> = signed_take_bit 63 (sint c + 1)" by simp
  also have "\<dots> = sint c + 1"
    using a b by (intro signed_take_bit_int_eq_self) auto
  finally show ?thesis .
qed

lemma sint_of_nat_small: "(N::nat) < 2^63 \<Longrightarrow> sint (of_nat N :: goint) = int N"
proof -
  assume a: "N < 2 ^ 63"
  have "sint (of_nat N :: goint) = signed_take_bit 63 (int N)"
    by (simp add: signed_of_nat)
  also have "\<dots> = int N"
    using a by (intro signed_take_bit_int_eq_self) auto
  finally show ?thesis .
qed

lemma delegate_example:
  "delegate (exampleEnv result) (s, storedWorld) =
     (case result of Inl err \<Rightarrow> Inl (ErrRunAgent err)
      | Inr response \<Rightarrow> Inr (createEmptyContext exampleTime, response))"
  by (simp add: delegate_def exampleEnv_def storedWorld_def freshWorld_def LoadContext_def
      LoadGoals_def LoadMission_def split: sum.splits)

lemma show_goint_1: "show_goint 1 = ''1''"
  by code_simp

lemma runCycle_total:
  "cycleNumber (fst (snd (runCycle env (s, w)))) = cycleNumber s + 1 \<and>
   running (fst (snd (runCycle env (s, w)))) = running s \<and>
   (fst (runCycle env (s, w)) = None \<longrightarrow>
      persistedTotal (snd (snd (runCycle env (s, w)))) = Some (cycleNumber s + 1)) \<and>
   (fst (runCycle env (s, w)) \<noteq> None \<longrightarrow>
      contextFile (snd (snd (runCycle env (s, w)))) = contextFile w) \<and>
   (\<exists>more. logger (fst (snd (runCycle env (s, w)))) = logger s @ more \<and>
           (\<forall>e. ErrorCycleFailed e \<notin> set more))"
proof (cases "delegate env (s\<lparr>cycleNumber := cycleNumber s + 1\<rparr>, w)")
  case (Inl err)
  show ?thesis by (simp add: runCycle_failed[OF Inl])
next
  case (Inr p)
  obtain ctx response where p: "p = (ctx, response)" by (cases p)
  obtain r s' w' where rc: "runCycle env (s, w) = (r, s', w')" by (cases "runCycle env (s, w)")
  note d = runCycle_delegated[OF Inr[unfolded p] rc]
  show ?thesis
    using d(1,2,3,5,6) by (auto simp: rc persistedTotal_def Let_def split: if_splits)
qed

lemma mainLoop_Tick:
  "running s \<Longrightarrow>
   mainLoop (Tick env # es) (s, w) =
     (case runCycle env (s, w) of
        (Some err, s', w') \<Rightarrow> mainLoop es (s'\<lparr>logger := logger s' @ [ErrorCycleFailed err]\<rparr>, w')
      | (None, s', w') \<Rightarrow> mainLoop es (s', w'))"
  by simp

lemma mainLoop_stopped: "\<not> running s \<Longrightarrow> mainLoop es (s, w) = (s, w)"
  by (cases es) auto

lemma mainLoop_logger:
  "\<exists>more. logger (fst (mainLoop es (s, w))) = logger s @ more"
proof (induction es arbitrary: s w)
  case Nil
  then show ?case by simp
next
  case (Cons e es)
  show ?case
  proof (cases "running s")
    case False
    then show ?thesis by simp
  next
    case True
    show ?thesis
    proof (cases e)
      case (Tick env)
      obtain r s' w' where rc: "runCycle env (s, w) = (r, s', w')" by (cases "runCycle env (s, w)")
      obtain m1 where m1: "logger s' = logger s @ m1"
        using runCycle_total[of env s w] by (auto simp: rc)
      show ?thesis
      proof (cases r)
        case None
        obtain m2 where "logger (fst (mainLoop es (s', w'))) = logger s' @ m2"
          using Cons.IH by blast
        then show ?thesis using True Tick rc None m1 by simp
      next
        case (Some err)
        obtain m2 where "logger (fst (mainLoop es (s'\<lparr>logger := logger s' @ [ErrorCycleFailed err]\<rparr>, w')))
             = logger (s'\<lparr>logger := logger s' @ [ErrorCycleFailed err]\<rparr>) @ m2"
          using Cons.IH by blast
        then show ?thesis using True Tick rc Some m1 by simp
      qed
    next
      case Signal
      then show ?thesis using True by (simp add: mainLoop_stopped)
    next
      case Cancelled
      then show ?thesis using True by (simp add: mainLoop_stopped)
    qed
  qed
qed

lemma mainLoop_all_completed:
  assumes "running s" and "envs \<noteq> []"
    and "\<forall>e. ErrorCycleFailed e \<notin> set (logger (fst (mainLoop (map Tick envs) (s, w))))"
  shows "persistedTotal (snd (mainLoop (map Tick envs) (s, w))) = Some (cycleNumber s + of_nat (length envs))"
  using assms
proof (induction envs arbitrary: s w)
  case Nil
  then show ?case by simp
next
  case (Cons env envs)
  obtain r s' w' where rc: "runCycle env (s, w) = (r, s', w')" by (cases "runCycle env (s, w)")
  note t = runCycle_total[of env s w, unfolded rc, simplified]
  show ?case
  proof (cases r)
    case (Some err)
    let ?s2 = "s'\<lparr>logger := logger s' @ [ErrorCycleFailed err]\<rparr>"
    have ml: "mainLoop (map Tick (env # envs)) (s, w) = mainLoop (map Tick envs) (?s2, w')"
      using Cons.prems(1) rc Some by simp
    obtain more where "logger (fst (mainLoop (map Tick envs) (?s2, w'))) = logger ?s2 @ more"
      using mainLoop_logger by blast
    then have "ErrorCycleFailed err \<in> set (logger (fst (mainLoop (map Tick (env # envs)) (s, w))))"
      using ml by simp
    with Cons.prems(3) show ?thesis by blast
  next
    case None
    have ml: "mainLoop (map Tick (env # envs)) (s, w) = mainLoop (map Tick envs) (s', w')"
      using Cons.prems(1) rc None by simp
    have run: "running s'" using t Cons.prems(1) by simp
    have cn: "cycleNumber s' = cycleNumber s + 1" using t by simp
    show ?thesis
    proof (cases "envs = []")
      case True
      then show ?thesis using ml t None by simp
    next
      case False
      have "persistedTotal (snd (mainLoop (map Tick envs) (s', w'))) = Some (cycleNumber s' + of_nat (length envs))"
        using Cons.IH[OF run False] Cons.prems(3) ml by simp
      then show ?thesis using ml cn by simp
    qed
  qed
qed

lemma mainLoop_monotone:
  assumes "persistedTotal w = Some t" and "sint t \<le> sint (cycleNumber s)"
    and "sint (cycleNumber s) + int (length es) < 2 ^ 63"
  shows "\<exists>t1. persistedTotal (snd (mainLoop es (s, w))) = Some t1 \<and> sint t \<le> sint t1 \<and>
              sint t1 \<le> sint (cycleNumber (fst (mainLoop es (s, w))))"
  using assms
proof (induction es arbitrary: s w t)
  case Nil
  then show ?case by simp
next
  case (Cons e es)
  show ?case
  proof (cases "running s")
    case False
    then show ?thesis using Cons.prems by simp
  next
    case True
    show ?thesis
    proof (cases e)
      case (Tick env)
      obtain r s' w' where rc: "runCycle env (s, w) = (r, s', w')" by (cases "runCycle env (s, w)")
      note tt = runCycle_total[of env s w, unfolded rc, simplified]
      have cn: "cycleNumber s' = cycleNumber s + 1" using tt by simp
      have sn: "sint (cycleNumber s') = sint (cycleNumber s) + 1"
        unfolding cn using Cons.prems(3) by (intro sint_succ) simp
      have bound: "sint (cycleNumber s') + int (length es) < 2 ^ 63"
        using sn Cons.prems(3) by simp
      show ?thesis
      proof (cases r)
        case None
        have p: "persistedTotal w' = Some (cycleNumber s')" using tt None cn by simp
        obtain t1 where t1: "persistedTotal (snd (mainLoop es (s', w'))) = Some t1"
            "sint (cycleNumber s') \<le> sint t1"
            "sint t1 \<le> sint (cycleNumber (fst (mainLoop es (s', w'))))"
          using Cons.IH[OF p _ bound] by auto
        have "mainLoop (e # es) (s, w) = mainLoop es (s', w')"
          using True Tick rc None by simp
        then show ?thesis using t1 sn Cons.prems(2) by auto
      next
        case (Some err)
        let ?s2 = "s'\<lparr>logger := logger s' @ [ErrorCycleFailed err]\<rparr>"
        have "contextFile w' = contextFile w" using tt Some by simp
        then have p: "persistedTotal w' = Some t" using Cons.prems(1) by (simp add: persistedTotal_def)
        have le: "sint t \<le> sint (cycleNumber ?s2)" using sn Cons.prems(2) by simp
        have b2: "sint (cycleNumber ?s2) + int (length es) < 2 ^ 63" using bound by simp
        obtain t1 where t1: "persistedTotal (snd (mainLoop es (?s2, w'))) = Some t1"
            "sint t \<le> sint t1"
            "sint t1 \<le> sint (cycleNumber (fst (mainLoop es (?s2, w'))))"
          using Cons.IH[OF p le b2] by auto
        have "mainLoop (e # es) (s, w) = mainLoop es (?s2, w')"
          using True Tick rc Some by simp
        then show ?thesis using t1 by auto
      qed
    next
      case Signal
      then show ?thesis using True Cons.prems by (simp add: mainLoop_stopped)
    next
      case Cancelled
      then show ?thesis using True Cons.prems by (simp add: mainLoop_stopped)
    qed
  qed
qed

lemma persistedTotal_cong:
  "contextFile w' = contextFile w \<Longrightarrow> persistedTotal w' = persistedTotal w"
  by (simp add: persistedTotal_def)

lemma AppendLog_contextFile: "contextFile (snd (AppendLog now fl entry w)) = contextFile w"
  by (simp add: AppendLog_def)

lemma releaseLock_contextFile: "contextFile (releaseLock env w) = contextFile w"
  by (simp add: releaseLock_def split: stored.splits)

lemma acquireLock_facts:
  assumes "acquireLock env (s, w) = (r, s', w')"
  shows "contextFile w' = contextFile w" and "cycleNumber s' = cycleNumber s"
  using assms
  by (auto simp: acquireLock_def createPIDFile_def Let_def split: stored.splits if_splits)

text \<open>The state in which \<open>Start\<close> enters its loop.\<close>

lemma Start_loop:
  assumes "Start env events (s, w) = (out, s', w')" and "LoadContext (now_initial env) w = Inr ctx"
    and "fst (acquireLock env (s, w)) = None"
  shows "\<exists>s1 w1. running s1 \<and> cycleNumber s1 = TotalCycles (Metadata ctx) \<and>
            contextFile w1 = contextFile w \<and>
            contextFile w' = contextFile (snd (mainLoop events (s1, w1))) \<and>
            s' = fst (mainLoop events (s1, w1)) \<and>
            (out = Waiting \<or> out = Returned None)"
proof -
  obtain s0 w0 where a: "acquireLock env (s, w) = (None, s0, w0)"
    using assms(3) by (cases "acquireLock env (s, w)") auto
  have c0: "contextFile w0 = contextFile w" using acquireLock_facts[OF a] by simp
  have l0: "LoadContext (now_initial env) w0 = Inr ctx"
    using assms(2) c0 by (simp add: LoadContext_def)
  let ?s1 = "s0\<lparr>running := True, cycleNumber := TotalCycles (Metadata ctx)\<rparr>"
  let ?w1 = "snd (AppendLog (now_started env) (log_faults env)
                (''**Cycle '' @ show_goint (TotalCycles (Metadata ctx)) @
                 '' - Heartbeat Started**\<newline>\<newline>Heartbeat service activated. Interval: '' @
                 interval env @ ''\<newline>'') w0)"
  obtain s2 w2 where m: "mainLoop events (?s1, ?w1) = (s2, w2)"
    by (cases "mainLoop events (?s1, ?w1)")
  have "running ?s1 \<and> cycleNumber ?s1 = TotalCycles (Metadata ctx) \<and>
            contextFile ?w1 = contextFile w \<and>
            contextFile w' = contextFile (snd (mainLoop events (?s1, ?w1))) \<and>
            s' = fst (mainLoop events (?s1, ?w1)) \<and>
            (out = Waiting \<or> out = Returned None)"
    using assms(1) a l0 c0 m
    by (auto simp: Start_def Let_def AppendLog_contextFile releaseLock_contextFile split: if_splits)
  then show ?thesis by blast
qed

lemma Start_contextFile_error:
  assumes "Start env events (s, w) = (out, s', w')"
    and "fst (acquireLock env (s, w)) \<noteq> None \<or> (\<exists>err. LoadContext (now_initial env) w = Inl err)"
  shows "contextFile w' = contextFile w"
proof -
  obtain r s0 w0 where a: "acquireLock env (s, w) = (r, s0, w0)"
    by (cases "acquireLock env (s, w)")
  have c0: "contextFile w0 = contextFile w" using acquireLock_facts[OF a] by simp
  have l0: "LoadContext (now_initial env) w0 = LoadContext (now_initial env) w"
    using c0 by (simp add: LoadContext_def)
  show ?thesis
    using assms a c0 l0
    by (cases r) (auto simp: Start_def Let_def releaseLock_contextFile split: sum.splits)
qed

lemmas cycle_eval = runCycle_def delegate_def processCommands_def finishCycle_def
  LoadContext_def LoadGoals_def LoadMission_def SaveContext_def AppendLog_def BackupContext_def
  exampleEnv_def exampleFaults_def freshWorld_def storedWorld_def NewService_def
  createEmptyContext_def ExecuteMemoryCommand_def assertString_def
  bogusCommand_def observationCommand_def Let_def

lemma delegate_loaded:
  "delegate env (s, w) = Inr (ctx, response) \<Longrightarrow>
     contextFile w = NoFile \<or> contextFile w = File (Wellformed ctx)"
  by (auto simp: delegate_def LoadContext_def Let_def split: stored.splits json_text.splits sum.splits)

theorem C2_backup_when_commands_extracted:
  "(delegate env (s\<lparr>cycleNumber := cycleNumber s + 1\<rparr>, w) = Inl err \<longrightarrow>
      backups (snd (snd (runCycle env (s, w)))) = backups w) \<and>
   (delegate env (s\<lparr>cycleNumber := cycleNumber s + 1\<rparr>, w) = Inr (ctx, response) \<longrightarrow>
      backups (snd (snd (runCycle env (s, w)))) =
        (if parseMemoryCommands response \<noteq> [] \<and> contextFile w \<noteq> NoFile \<and>
            backup_mkdir_ok (fs env) \<and> backup_write_ok (fs env)
         then (backups w)(backupPath (now_backup env) (''cycle_'' @ show_goint (cycleNumber s + 1))
                \<mapsto> Wellformed ctx)
         else backups w))"
proof (intro conjI impI)
  assume "delegate env (s\<lparr>cycleNumber := cycleNumber s + 1\<rparr>, w) = Inl err"
  then show "backups (snd (snd (runCycle env (s, w)))) = backups w"
    by (simp add: runCycle_failed)
next
  assume d: "delegate env (s\<lparr>cycleNumber := cycleNumber s + 1\<rparr>, w) = Inr (ctx, response)"
  obtain r s' w' where rc: "runCycle env (s, w) = (r, s', w')" by (cases "runCycle env (s, w)")
  have b: "backups w' =
           (if parseMemoryCommands response \<noteq> []
            then backups (snd (BackupContext (now_backup env) (fs env)
                                 (''cycle_'' @ show_goint (cycleNumber s + 1)) w))
            else backups w)"
    using runCycle_delegated(4)[OF d rc] .
  from delegate_loaded[OF d]
  show "backups (snd (snd (runCycle env (s, w)))) =
        (if parseMemoryCommands response \<noteq> [] \<and> contextFile w \<noteq> NoFile \<and>
            backup_mkdir_ok (fs env) \<and> backup_write_ok (fs env)
         then (backups w)(backupPath (now_backup env) (''cycle_'' @ show_goint (cycleNumber s + 1))
                \<mapsto> Wellformed ctx)
         else backups w)"
    by (auto simp: rc b BackupContext_backups)
qed

lemma not_well_formed_bogus: "\<not> well_formed_command bogusCommand"
  by (simp add: well_formed_command_def bogusCommand_def)

lemma well_formed_observation: "well_formed_command (observationCommand text)"
  by (simp add: well_formed_command_def observationCommand_def has_text_def)

lemma backupPath_example:
  "backupPath exampleTime ''cycle_1'' = ''context_20251025_203000_cycle_1.json''"
  by code_simp

theorem C2_backup_for_invalid_block:
  "parseMemoryCommands bogusBlock = [bogusCommand] \<and> \<not> well_formed_command bogusCommand \<and>
   backups storedWorld = Map.empty \<and>
   backups (snd (snd (runCycle (exampleEnv (Inr bogusBlock)) (NewService, storedWorld))))
     = [''context_20251025_203000_cycle_1.json'' \<mapsto> Wellformed (createEmptyContext exampleTime)] \<and>
   parseMemoryCommands (observationBlock ''a'') = [observationCommand ''a''] \<and>
   well_formed_command (observationCommand ''a'') \<and>
   backups (snd (snd (runCycle (exampleEnv (Inr (observationBlock ''a''))) (NewService, freshWorld))))
     = Map.empty"
proof -
  have "backups storedWorld = Map.empty"
    by (simp add: storedWorld_def freshWorld_def)
  moreover have "backups (snd (snd (runCycle (exampleEnv (Inr bogusBlock)) (NewService, storedWorld))))
     = [''context_20251025_203000_cycle_1.json'' \<mapsto> Wellformed (createEmptyContext exampleTime)]"
    by (simp add: parse_bogusBlock cycle_eval show_goint_1 backupPath_example)
  moreover have "backups (snd (snd (runCycle (exampleEnv (Inr (observationBlock ''a''))) (NewService, freshWorld))))
     = Map.empty"
    by (simp add: parse_observationBlock_a cycle_eval)
  ultimately show ?thesis
    using parse_bogusBlock parse_observationBlock_a not_well_formed_bogus well_formed_observation
    by simp
qed

theorem C2_backup_when_commands_extracted_witness:
  "delegate (exampleEnv (Inr bogusBlock)) (NewService\<lparr>cycleNumber := cycleNumber NewService + 1\<rparr>, storedWorld)
     = Inr (createEmptyContext exampleTime, bogusBlock) \<and>
   backups (snd (snd (runCycle (exampleEnv (Inr bogusBlock)) (NewService, storedWorld)))) =
     [backupPath exampleTime (''cycle_'' @ show_goint (cycleNumber NewService + 1))
        \<mapsto> Wellformed (createEmptyContext exampleTime)]"
  using C2_backup_when_commands_extracted [of "exampleEnv (Inr bogusBlock)" NewService storedWorld osError
        "createEmptyContext exampleTime" bogusBlock]
  by (simp add: delegate_example parse_bogusBlock)
     (simp add: exampleEnv_def exampleFaults_def storedWorld_def freshWorld_def)

theorem C8_backup_failure_still_saves:
  "fst (BackupContext exampleTime (exampleFaults\<lparr>backup_write_ok := False\<rparr>) ''cycle_1'' storedWorld)
     = Some (ErrBackupWrite osError) \<and>
   fst (runCycle ((exampleEnv (Inr (observationBlock ''a'')))\<lparr>fs := exampleFaults\<lparr>backup_write_ok := False\<rparr>\<rparr>)
          (NewService, storedWorld)) = None \<and>
   backups (snd (snd (runCycle ((exampleEnv (Inr (observationBlock ''a'')))\<lparr>fs := exampleFaults\<lparr>backup_write_ok := False\<rparr>\<rparr>)
          (NewService, storedWorld)))) = Map.empty \<and>
   contextFile (snd (snd (runCycle ((exampleEnv (Inr (observationBlock ''a'')))\<lparr>fs := exampleFaults\<lparr>backup_write_ok := False\<rparr>\<rparr>)
          (NewService, storedWorld)))) =
     File (Wellformed ((createEmptyContext exampleTime)
       \<lparr>Observations := [\<lparr>o_Content = ''a'', o_Timestamp = exampleTime, o_Cycle = 1\<rparr>],
        Metadata := (Metadata (createEmptyContext exampleTime))\<lparr>TotalCycles := 1\<rparr>\<rparr>))"
  by (simp add: parse_observationBlock_a cycle_eval)

theorem C3_first_block_only:
  "(\<not> sublist marker response \<longrightarrow> parseMemoryCommands response = []) \<and>
   (\<not> sublist marker (pre @ butlast marker) \<and> (\<forall>c \<in> set ws. is_space c) \<and>
    CHR '']'' \<notin> set body \<and> (\<forall>c \<in> set gap. is_space c) \<and> gap \<noteq> [] \<and> last gap = CHR 0x0A \<and>
    CHR 0x0A \<notin> set (takeWhile is_space rest) \<longrightarrow>
      parseMemoryCommands (pre @ marker @ ws @ ''['' @ body @ '']'' @ gap @ rest) =
        (case Unmarshal (''['' @ body @ '']'' @ gap) of None \<Rightarrow> [] | Some commands \<Rightarrow> commands)) \<and>
   (delegate env (s\<lparr>cycleNumber := cycleNumber s + 1\<rparr>, w) = Inr (ctx, response) \<and>
    context_write_ok (fs env) \<longrightarrow> fst (runCycle env (s, w)) = None) \<and>
   (delegate env (s\<lparr>cycleNumber := cycleNumber s + 1\<rparr>, w) = Inr (ctx, response) \<and>
    context_write_ok (fs env) \<and> parseMemoryCommands response = [] \<longrightarrow>
      backups (snd (snd (runCycle env (s, w)))) = backups w \<and>
      contextFile (snd (snd (runCycle env (s, w)))) =
        File (Wellformed (ctx\<lparr>Metadata := (Metadata ctx)
                \<lparr>TotalCycles := cycleNumber s + 1, UpdatedAt := now_save env\<rparr>\<rparr>)))"
proof (intro conjI impI)
  assume "\<not> sublist marker response"
  then show "parseMemoryCommands response = []" by (rule no_marker_no_commands)
next
  assume a: "\<not> sublist marker (pre @ butlast marker) \<and> (\<forall>c \<in> set ws. is_space c) \<and>
    CHR '']'' \<notin> set body \<and> (\<forall>c \<in> set gap. is_space c) \<and> gap \<noteq> [] \<and> last gap = CHR 0x0A \<and>
    CHR 0x0A \<notin> set (takeWhile is_space rest)"
  then have "FindStringSubmatch (pre @ marker @ ws @ ''['' @ body @ '']'' @ gap @ rest) =
      Some (''['' @ body @ '']'' @ gap)"
    by (intro first_block) blast+
  then show "parseMemoryCommands (pre @ marker @ ws @ ''['' @ body @ '']'' @ gap @ rest) =
        (case Unmarshal (''['' @ body @ '']'' @ gap) of None \<Rightarrow> [] | Some commands \<Rightarrow> commands)"
    by (simp only: parseMemoryCommands_def option.case)
next
  assume "delegate env (s\<lparr>cycleNumber := cycleNumber s + 1\<rparr>, w) = Inr (ctx, response) \<and>
    context_write_ok (fs env)"
  then show "fst (runCycle env (s, w)) = None"
    using runCycle_ok[of env "(s, w)" ctx response] by simp
next
  assume a: "delegate env (s\<lparr>cycleNumber := cycleNumber s + 1\<rparr>, w) = Inr (ctx, response) \<and>
    context_write_ok (fs env) \<and> parseMemoryCommands response = []"
  obtain r s' w' where rc: "runCycle env (s, w) = (r, s', w')" by (cases "runCycle env (s, w)")
  note d = runCycle_delegated[OF conjunct1[OF a] rc]
  show "backups (snd (snd (runCycle env (s, w)))) = backups w"
    using d(4) a by (simp add: rc)
  show "contextFile (snd (snd (runCycle env (s, w)))) =
        File (Wellformed (ctx\<lparr>Metadata := (Metadata ctx)
                \<lparr>TotalCycles := cycleNumber s + 1, UpdatedAt := now_save env\<rparr>\<rparr>))"
    using d(5) a by (simp add: rc)
qed

theorem C3_two_blocks_mutate:
  "FindStringSubmatch twoBlocks = Some (''['' @ observationText ''a'' @ '']\<newline>'') \<and>
   twoBlocks = ''Done.\<newline>'' @ observationBlock ''a'' @ observationBlock ''b'' \<and>
   FindStringSubmatch (observationBlock ''b'') = Some (''['' @ observationText ''b'' @ '']\<newline>'') \<and>
   fst (runCycle (exampleEnv (Inr twoBlocks)) (NewService, storedWorld)) = None \<and>
   contextFile (snd (snd (runCycle (exampleEnv (Inr twoBlocks)) (NewService, storedWorld)))) =
     File (Wellformed ((createEmptyContext exampleTime)
       \<lparr>Observations := [\<lparr>o_Content = ''a'', o_Timestamp = exampleTime, o_Cycle = 1\<rparr>],
        Metadata := (Metadata (createEmptyContext exampleTime))\<lparr>TotalCycles := 1\<rparr>\<rparr>))"
proof -
  have "fst (runCycle (exampleEnv (Inr twoBlocks)) (NewService, storedWorld)) = None"
    by (simp add: parse_twoBlocks cycle_eval)
  moreover have "contextFile (snd (snd (runCycle (exampleEnv (Inr twoBlocks)) (NewService, storedWorld)))) =
     File (Wellformed ((createEmptyContext exampleTime)
       \<lparr>Observations := [\<lparr>o_Content = ''a'', o_Timestamp = exampleTime, o_Cycle = 1\<rparr>],
        Metadata := (Metadata (createEmptyContext exampleTime))\<lparr>TotalCycles := 1\<rparr>\<rparr>))"
    by (simp add: parse_twoBlocks cycle_eval)
  ultimately show ?thesis
    using find_twoBlocks by (simp add: twoBlocks_def)
qed

lemma no_marker_Done: "\<not> sublist marker (''Done.\<newline>'' @ butlast marker)"
  by (simp add: marker_def sublist_code prefix_code)

lemma no_marker_ok: "\<not> sublist marker ''ok''"
  by (simp add: marker_def sublist_code prefix_code)

theorem C3_first_block_only_witness:
  "\<not> sublist marker ''ok'' \<and> parseMemoryCommands ''ok'' = [] \<and>
   parseMemoryCommands (''Done.\<newline>'' @ marker @ ''\<newline>'' @ ''['' @ observationText ''a'' @ '']'' @
        ''\<newline>'' @ observationBlock ''b'') = [observationCommand ''a''] \<and>
   fst (runCycle (exampleEnv (Inr ''ok'')) (NewService, storedWorld)) = None \<and>
   contextFile (snd (snd (runCycle (exampleEnv (Inr ''ok'')) (NewService, storedWorld)))) =
     File (Wellformed ((createEmptyContext exampleTime)
        \<lparr>Metadata := (Metadata (createEmptyContext exampleTime))\<lparr>TotalCycles := 1\<rparr>\<rparr>))"
proof -
  have u: "Unmarshal (''['' @ observationText ''a'' @ '']'' @ ''\<newline>'') = Some [observationCommand ''a'']"
    by (simp add: observationText_def observationCommand_def json_eval)
  have h: "\<not> sublist marker (''Done.\<newline>'' @ butlast marker) \<and> (\<forall>c \<in> set ''\<newline>''. is_space c) \<and>
    CHR '']'' \<notin> set (observationText ''a'') \<and> (\<forall>c \<in> set ''\<newline>''. is_space c) \<and>
    ''\<newline>'' \<noteq> [] \<and> last ''\<newline>'' = CHR 0x0A \<and>
    CHR 0x0A \<notin> set (takeWhile is_space (observationBlock ''b''))"
    using no_marker_Done by (simp add: is_space_def observationText_def observationBlock_def marker_def)
  have d: "delegate (exampleEnv (Inr ''ok'')) (NewService\<lparr>cycleNumber := cycleNumber NewService + 1\<rparr>, storedWorld)
      = Inr (createEmptyContext exampleTime, ''ok'')"
    by (simp add: delegate_example)
  have w: "context_write_ok (fs (exampleEnv (Inr ''ok'')))" "now_save (exampleEnv (Inr ''ok'')) = exampleTime"
    by (simp_all add: exampleEnv_def exampleFaults_def)
  show ?thesis
    using C3_first_block_only [of "''ok''" "''Done.\<newline>''" "''\<newline>''" "observationText ''a''" "''\<newline>''" "observationBlock ''b''"
        "exampleEnv (Inr ''ok'')" NewService storedWorld "createEmptyContext exampleTime"]
      no_marker_ok h u d w
    by (simp add: NewService_def createEmptyContext_def)
qed

end
